theory Spec2Isabelle
  imports Complex_Main
begin

section \<open>JavaScript values\<close>

text \<open>
  The module under verification is \<^verbatim>\<open>api/modules/tuya.js\<close> together with
  \<^verbatim>\<open>lib/redis.js\<close>. The values it handles are the ones JSON decoding and
  \<^verbatim>\<open>process.env\<close> deliver. Numbers are modelled as exact rationals extended by
  \<^verbatim>\<open>NaN\<close> and the two infinities (IEEE rounding is outside the model); strings are
  byte lists, so case conversion is the ASCII one.
\<close>

datatype jsnum = Fin rat | NaN | PosInf | NegInf

datatype jsval =
    JUndefined
  | JNull
  | JBool bool
  | JNum jsnum
  | JStr string
  | JArr "jsval list"
  | JObj "(string \<times> jsval) list"

record response =
  status :: nat
  data :: jsval

text \<open>
  What a \<^verbatim>\<open>throw\<close> can carry in this module: an \<^verbatim>\<open>Error\<close> made by the
  module itself, a rejection coming out of \<^verbatim>\<open>getRedisClient\<close> or a Redis client
  method, a rejection of axios (with \<^verbatim>\<open>error.response\<close> when the server answered),
  and the engine's \<^verbatim>\<open>TypeError\<close> for a property read on null or undefined.
\<close>

datatype error =
    Error string
  | RedisError string
  | AxiosError string "response option"
  | TypeError string

fun error_message :: "error \<Rightarrow> string" where
  "error_message (Error m) = m"
| "error_message (RedisError m) = m"
| "error_message (AxiosError m r) = m"
| "error_message (TypeError m) = m"

fun error_response :: "error \<Rightarrow> response option" where
  "error_response (AxiosError m r) = r"
| "error_response e = None"

text \<open>ToBoolean, as used by \<^verbatim>\<open>!x\<close>, \<^verbatim>\<open>x || y\<close>, \<^verbatim>\<open>x && y\<close> and
  \<^verbatim>\<open>if (x)\<close>.\<close>

fun truthy :: "jsval \<Rightarrow> bool" where
  "truthy JUndefined = False"
| "truthy JNull = False"
| "truthy (JBool b) = b"
| "truthy (JNum n) = (n \<noteq> NaN \<and> n \<noteq> Fin 0)"
| "truthy (JStr s) = (s \<noteq> [])"
| "truthy (JArr xs) = True"
| "truthy (JObj kvs) = True"

text \<open>A string read from \<^verbatim>\<open>process.env\<close>, a query parameter or Redis: absent
  (\<^verbatim>\<open>undefined\<close>/\<^verbatim>\<open>null\<close>) or a string; it is falsy when absent or empty.\<close>

fun truthy_str :: "string option \<Rightarrow> bool" where
  "truthy_str None = False"
| "truthy_str (Some s) = (s \<noteq> [])"

text \<open>
  Property reads. \<^verbatim>\<open>v.p\<close> throws on null and undefined; \<^verbatim>\<open>v?.p\<close> yields
  undefined there. On an object the property table is searched (the table holds each
  property once; were a name listed twice, the first entry would count); strings and
  arrays have \<^verbatim>\<open>length\<close>; none of the data properties the module reads
  (\<^verbatim>\<open>success\<close>, \<^verbatim>\<open>code\<close>, \<^verbatim>\<open>msg\<close>, \<^verbatim>\<open>result\<close>,
  \<^verbatim>\<open>access_token\<close>, \<^verbatim>\<open>expire_time\<close>, \<^verbatim>\<open>value\<close>) exists on a primitive or
  on an array.
\<close>

definition cannot_read :: "string \<Rightarrow> string \<Rightarrow> string" where
  "cannot_read what p =
     ''Cannot read properties of '' @ what @ '' (reading '' @ [CHR 0x27] @ p @ [CHR 0x27] @ '')''"

fun js_get :: "jsval \<Rightarrow> string \<Rightarrow> error + jsval" where
  "js_get JUndefined p = Inl (TypeError (cannot_read ''undefined'' p))"
| "js_get JNull p = Inl (TypeError (cannot_read ''null'' p))"
| "js_get (JObj kvs) p = Inr (case map_of kvs p of None \<Rightarrow> JUndefined | Some v \<Rightarrow> v)"
| "js_get (JStr s) p = Inr (if p = ''length'' then JNum (Fin (of_nat (length s))) else JUndefined)"
| "js_get (JArr xs) p = Inr (if p = ''length'' then JNum (Fin (of_nat (length xs))) else JUndefined)"
| "js_get (JBool b) p = Inr JUndefined"
| "js_get (JNum n) p = Inr JUndefined"

fun js_opt :: "jsval \<Rightarrow> string \<Rightarrow> jsval" where
  "js_opt v p = (case js_get v p of Inl e \<Rightarrow> JUndefined | Inr x \<Rightarrow> x)"

text \<open>\<^verbatim>\<open>x || y\<close> on values.\<close>

definition js_or :: "jsval \<Rightarrow> jsval \<Rightarrow> jsval" where
  "js_or x y = (if truthy x then x else y)"

subsection \<open>Strings\<close>

definition upper_char :: "char \<Rightarrow> char" where
  "upper_char c =
     (if (97::nat) \<le> of_char c \<and> of_char c \<le> (122::nat)
      then char_of (of_char c - (32::nat)) else c)"

definition lower_char :: "char \<Rightarrow> char" where
  "lower_char c =
     (if (65::nat) \<le> of_char c \<and> of_char c \<le> (90::nat)
      then char_of (of_char c + (32::nat)) else c)"

definition toUpperCase :: "string \<Rightarrow> string" where
  "toUpperCase s = map upper_char s"

definition toLowerCase :: "string \<Rightarrow> string" where
  "toLowerCase s = map lower_char s"

definition digit_char :: "nat \<Rightarrow> char" where
  "digit_char d = char_of (48 + d)"

text \<open>\<^verbatim>\<open>Number.prototype.toString\<close> on a non-negative integer such as
  \<^verbatim>\<open>Date.now()\<close> or an HTTP status.\<close>

function decimal :: "nat \<Rightarrow> string" where
  "decimal n = (if n < 10 then [digit_char n] else decimal (n div 10) @ [digit_char (n mod 10)])"
  by pat_completeness auto
termination
  by (relation "measure (\<lambda>n. n)") auto

declare decimal.simps [simp del]

subsection \<open>Numbers\<close>

fun num_gt :: "jsnum \<Rightarrow> rat \<Rightarrow> bool" where
  "num_gt (Fin r) c = (c < r)"
| "num_gt PosInf c = True"
| "num_gt NaN c = False"
| "num_gt NegInf c = False"

fun num_sub :: "jsnum \<Rightarrow> rat \<Rightarrow> jsnum" where
  "num_sub (Fin r) c = Fin (r - c)"
| "num_sub n c = n"

fun num_div :: "jsnum \<Rightarrow> rat \<Rightarrow> jsnum" where
  "num_div (Fin r) c = Fin (r / c)"
| "num_div n c = n"

section \<open>The engine and the libraries\<close>

text \<open>
  The functions of Node and of the engine that the module calls and that are not code
  of the repository are parameters of the model: the two digests of
  \<^verbatim>\<open>crypto\<close>, the conversion ToString on values that are not strings, the
  conversion StringToNumber, and the two functions of \<^verbatim>\<open>JSON\<close>.
\<close>

record platform =
  sha256_hex :: "string \<Rightarrow> string"
  hmac_sha256_hex :: "string \<Rightarrow> string \<Rightarrow> string"
  ToString_value :: "jsval \<Rightarrow> string"
  StringToNumber :: "string \<Rightarrow> jsnum"
  JSON_stringify :: "jsval \<Rightarrow> string"
  JSON_parse :: "string \<Rightarrow> string + jsval"

definition ToString :: "platform \<Rightarrow> jsval \<Rightarrow> string" where
  "ToString P v = (case v of JStr s \<Rightarrow> s | _ \<Rightarrow> ToString_value P v)"

text \<open>ToNumber: arrays and plain objects go through their string form.\<close>

definition ToNumber :: "platform \<Rightarrow> jsval \<Rightarrow> jsnum" where
  "ToNumber P v =
     (case v of
        JUndefined \<Rightarrow> NaN
      | JNull \<Rightarrow> Fin 0
      | JBool b \<Rightarrow> Fin (if b then 1 else 0)
      | JNum n \<Rightarrow> n
      | JStr s \<Rightarrow> StringToNumber P s
      | JArr xs \<Rightarrow> StringToNumber P (ToString_value P v)
      | JObj kvs \<Rightarrow> StringToNumber P (ToString_value P v))"

text \<open>\<^verbatim>\<open>v > c\<close> and \<^verbatim>\<open>v - c\<close> for a numeric constant \<open>c\<close>.\<close>

definition js_gt :: "platform \<Rightarrow> jsval \<Rightarrow> rat \<Rightarrow> bool" where
  "js_gt P v c = num_gt (ToNumber P v) c"

definition js_sub :: "platform \<Rightarrow> jsval \<Rightarrow> rat \<Rightarrow> jsval" where
  "js_sub P v c = JNum (num_sub (ToNumber P v) c)"

section \<open>The outside world\<close>

text \<open>
  Every call that leaves the process is recorded in a trace, in the order of the calls.
  A successful \<^verbatim>\<open>client.connect()\<close> carries the handle of the new connection,
  \<^verbatim>\<open>quit\<close>, \<^verbatim>\<open>set\<close> and \<^verbatim>\<open>del\<close> carry whether the call resolved.
  \<^verbatim>\<open>axios.get(url, config)\<close> (the token request) and \<^verbatim>\<open>axios(config)\<close>
  (the resource request) are two events. Console output is not recorded.
\<close>

record request =
  req_method :: string
  req_url :: string
  req_headers :: "(string \<times> jsval) list"
  req_data :: "jsval option"
  req_timeout :: nat

datatype event =
    EConnect "nat option"
  | EGet nat string
  | ESet nat string jsval jsval bool
  | EDel nat string bool
  | EQuit nat bool
  | EAxiosGet request
  | EAxios request

type_synonym world = "event list"

text \<open>
  The environment: \<^verbatim>\<open>process.env\<close>, the clock, and how the Redis server and the
  vendor answer. Each answer may depend on everything that happened so far: the answer
  to \<^verbatim>\<open>get\<close> and to an HTTP request is a function of the trace that ends with that
  call, the outcome of \<^verbatim>\<open>connect\<close>, \<^verbatim>\<open>set\<close>, \<^verbatim>\<open>del\<close> and \<^verbatim>\<open>quit\<close>
  (which the event itself records) a function of the trace before the call. For Redis,
  \<open>Some m\<close> is a rejection with message \<open>m\<close>; \<^verbatim>\<open>get\<close> resolves to null or a
  string; axios either gets no response (\<open>Inl m\<close>) or the server's response.
\<close>

record env =
  TUYA_CLIENT_ID :: "string option"
  TUYA_CLIENT_SECRET :: "string option"
  REDIS_HOST :: "string option"
  REDIS_PORT :: "string option"
  REDIS_PASSWORD :: "string option"
  date_now :: "world \<Rightarrow> nat"
  date_iso :: "world \<Rightarrow> string"
  redis_connect :: "world \<Rightarrow> string option"
  redis_get :: "world \<Rightarrow> string + string option"
  redis_set :: "world \<Rightarrow> string option"
  redis_del :: "world \<Rightarrow> string option"
  redis_quit :: "world \<Rightarrow> string option"
  axios_reply :: "world \<Rightarrow> string + response"

section \<open>generateSign\<close>

record signature =
  sign :: string
  timestamp :: string
  clientId :: string

text \<open>
  \<^verbatim>\<open>generateSign(method, path, body = "", token = "")\<close>: an omitted or undefined
  argument takes its default. The token is whatever \<^verbatim>\<open>getAccessToken\<close> returned
  and is converted by the string concatenation.
\<close>

definition generateSign ::
  "platform \<Rightarrow> env \<Rightarrow> world \<Rightarrow> string \<Rightarrow> string \<Rightarrow> string option \<Rightarrow> jsval \<Rightarrow> error + signature" where
  "generateSign P env w method path body token =
     (if \<not> truthy_str (TUYA_CLIENT_ID env) \<or> \<not> truthy_str (TUYA_CLIENT_SECRET env)
      then Inl (Error ''Missing Tuya API credentials'')
      else
        let body' = (case body of None \<Rightarrow> '''' | Some b \<Rightarrow> b);
            token' = (case token of JUndefined \<Rightarrow> JStr '''' | t \<Rightarrow> t);
            timestamp = decimal (date_now env w);
            contentHash = sha256_hex P body';
            stringToSign = method @ [CHR 0x0A] @ contentHash @ [CHR 0x0A, CHR 0x0A] @ path;
            signStr = the (TUYA_CLIENT_ID env) @ ToString P token' @ timestamp @ stringToSign
        in Inr \<lparr> sign = toUpperCase (hmac_sha256_hex P (the (TUYA_CLIENT_SECRET env)) signStr),
                 timestamp = timestamp,
                 clientId = the (TUYA_CLIENT_ID env) \<rparr>)"

text \<open>
  The signature in the words of the specification: the uppercase hexadecimal
  HMAC-SHA256, keyed by the client secret, of client id, token and timestamp followed
  by the method, a newline, the SHA-256 hex hash of the body, an empty line, and the path.
\<close>

definition spec_signature ::
  "platform \<Rightarrow> string \<Rightarrow> string \<Rightarrow> string \<Rightarrow> string \<Rightarrow> string \<Rightarrow> string \<Rightarrow> string \<Rightarrow> string" where
  "spec_signature P cid secret ts method path body token =
     toUpperCase (hmac_sha256_hex P secret
       (concat [cid, token, ts, method, [CHR 0x0A], sha256_hex P body, [CHR 0x0A], [CHR 0x0A], path]))"

section \<open>lib/redis.js\<close>

text \<open>The handle of the next connection: the number of connections made so far.\<close>

fun is_connected :: "event \<Rightarrow> bool" where
  "is_connected (EConnect (Some h)) = True"
| "is_connected e = False"

definition fresh :: "world \<Rightarrow> nat" where
  "fresh w = length (filter is_connected w)"

text \<open>
  \<^verbatim>\<open>getRedisClient()\<close> throws when a Redis variable is missing, otherwise creates a
  client and awaits \<^verbatim>\<open>client.connect()\<close>; it rethrows the rejection or returns the
  client. It never returns a falsy value.
\<close>

definition getRedisClient :: "env \<Rightarrow> world \<Rightarrow> (error + nat) \<times> world" where
  "getRedisClient env w =
     (if \<not> truthy_str (REDIS_HOST env) \<or> \<not> truthy_str (REDIS_PORT env)
         \<or> \<not> truthy_str (REDIS_PASSWORD env)
      then (Inl (RedisError ''Redis environment variables are not defined''), w)
      else (case redis_connect env w of
              Some m \<Rightarrow> (Inl (RedisError m), w @ [EConnect None])
            | None \<Rightarrow> (Inr (fresh w), w @ [EConnect (Some (fresh w))])))"

text \<open>\<^verbatim>\<open>await client.quit()\<close>: resolves or rejects.\<close>

definition quit :: "env \<Rightarrow> nat \<Rightarrow> world \<Rightarrow> (error + unit) \<times> world" where
  "quit env h w =
     (case redis_quit env w of
        None \<Rightarrow> (Inr (), w @ [EQuit h True])
      | Some m \<Rightarrow> (Inl (RedisError m), w @ [EQuit h False]))"

text \<open>\<^verbatim>\<open>try { await client.quit(); } catch (e) { /* ignore */ }\<close>\<close>

definition quit_ignore :: "env \<Rightarrow> nat \<Rightarrow> world \<Rightarrow> world" where
  "quit_ignore env h w = snd (quit env h w)"

section \<open>axios\<close>

text \<open>
  The request is sent; when no response arrives axios rejects without
  \<^verbatim>\<open>error.response\<close>; when the status fails \<^verbatim>\<open>validateStatus\<close> it rejects
  with the response attached; otherwise it resolves to the response.
\<close>

definition axios :: "env \<Rightarrow> (nat \<Rightarrow> bool) \<Rightarrow> event \<Rightarrow> world \<Rightarrow> (error + response) \<times> world" where
  "axios env validateStatus call w =
     (let w1 = w @ [call] in
      case axios_reply env w1 of
        Inl m \<Rightarrow> (Inl (AxiosError m None), w1)
      | Inr r \<Rightarrow>
          if validateStatus (status r) then (Inr r, w1)
          else (Inl (AxiosError (''Request failed with status code '' @ decimal (status r)) (Some r)), w1))"

section \<open>getAccessToken\<close>

definition redisKey :: string where
  "redisKey = ''tuya_token''"

definition baseUrl :: string where
  "baseUrl = ''https://openapi.tuyaeu.com''"

text \<open>
  Lines 35 to 53, the inner \<^verbatim>\<open>try\<close>: either the function returns the cached
  token, or control falls through with \<^verbatim>\<open>redisClient\<close> holding the open client or
  null. Every throw inside, also one of the \<^verbatim>\<open>quit\<close> on line 43, lands in the
  \<^verbatim>\<open>catch\<close>, which quits the client when there is one and sets the variable to null.
  The test on line 37 never fires, \<^verbatim>\<open>getRedisClient\<close> returning a client or throwing.
\<close>

datatype cache_read = Hit string | Miss "nat option"

definition read_cache :: "env \<Rightarrow> world \<Rightarrow> cache_read \<times> world" where
  "read_cache env w =
     (case getRedisClient env w of
        (Inl e, w1) \<Rightarrow> (Miss None, w1)
      | (Inr h, w1) \<Rightarrow>
          (let w2 = w1 @ [EGet h redisKey] in
           case redis_get env w2 of
             Inl m \<Rightarrow> (Miss None, quit_ignore env h w2)
           | Inr token \<Rightarrow>
               if truthy_str token then
                 (case quit env h w2 of
                    (Inr u, w3) \<Rightarrow> (Hit (the token), w3)
                  | (Inl e, w3) \<Rightarrow> (Miss None, quit_ignore env h w3))
               else (Miss (Some h), w2)))"

text \<open>
  Lines 56 to 71: the signed request to the token endpoint, the check of the envelope,
  and the TTL. \<^verbatim>\<open>axios.get\<close> keeps the default \<^verbatim>\<open>validateStatus\<close>, which
  accepts 200 to 299. The plain reads \<^verbatim>\<open>response.data.result\<close> come after the test
  of \<^verbatim>\<open>response.data?.success\<close>, so they act on a value that is not null or
  undefined, where the plain and the optional read agree.
\<close>

definition tokenPath :: string where
  "tokenPath = ''/v1.0/token?grant_type=1''"

definition request_token :: "platform \<Rightarrow> env \<Rightarrow> world \<Rightarrow> (error + jsval \<times> jsval) \<times> world" where
  "request_token P env w =
     (case generateSign P env w ''GET'' tokenPath None JUndefined of
        Inl e \<Rightarrow> (Inl e, w)
      | Inr sg \<Rightarrow>
          (case axios env (\<lambda>s. 200 \<le> s \<and> s < 300)
                  (EAxiosGet \<lparr> req_method = ''GET'', req_url = baseUrl @ tokenPath,
                     req_headers = [(''client_id'', JStr (clientId sg)), (''sign'', JStr (sign sg)),
                                    (''t'', JStr (timestamp sg)), (''sign_method'', JStr ''HMAC-SHA256'')],
                     req_data = None, req_timeout = 10000 \<rparr>) w of
             (Inl e, w1) \<Rightarrow> (Inl e, w1)
           | (Inr response, w1) \<Rightarrow>
               if \<not> truthy (js_opt (data response) ''success'')
                  \<or> \<not> truthy (js_opt (js_opt (data response) ''result'') ''access_token'')
               then (Inl (Error (''Error getting token: '' @
                        ToString P (js_or (js_opt (data response) ''msg'')
                                          (JStr ''Invalid response from Tuya API'')))), w1)
               else
                 let token = js_opt (js_opt (data response) ''result'') ''access_token'';
                     expireTime = js_opt (js_opt (data response) ''result'') ''expire_time'';
                     ttl = (if js_gt P expireTime 60 then js_sub P expireTime 60 else expireTime)
                 in (Inr (token, ttl), w1)))"

text \<open>
  Lines 76 to 104: reconnect when no client is held, write the token when the TTL is
  positive, quit. Nothing thrown here leaves the block. The outcome of
  \<^verbatim>\<open>set\<close> only changes what is logged.
\<close>

definition save_token :: "platform \<Rightarrow> env \<Rightarrow> nat option \<Rightarrow> jsval \<Rightarrow> jsval \<Rightarrow> world \<Rightarrow> world" where
  "save_token P env redisClient token ttl w =
     (let (redisClient', w1) =
            (case redisClient of
               Some h \<Rightarrow> (Some h, w)
             | None \<Rightarrow> (case getRedisClient env w of
                          (Inr h, w') \<Rightarrow> (Some h, w')
                        | (Inl e, w') \<Rightarrow> (None, w')))
      in case redisClient' of
           None \<Rightarrow> w1
         | Some h \<Rightarrow>
             quit_ignore env h
               (if js_gt P ttl 0
                then w1 @ [ESet h redisKey token ttl (redis_set env w1 = None)]
                else w1))"

text \<open>
  The whole function. The outer \<^verbatim>\<open>catch\<close> sees only what the token request
  throws: it quits the client still held and rethrows.
\<close>

definition getAccessToken :: "platform \<Rightarrow> env \<Rightarrow> world \<Rightarrow> (error + jsval) \<times> world" where
  "getAccessToken P env w =
     (case read_cache env w of
        (Hit token, w1) \<Rightarrow> (Inr (JStr token), w1)
      | (Miss redisClient, w1) \<Rightarrow>
          (case request_token P env w1 of
             (Inl e, w2) \<Rightarrow>
               (Inl e, (case redisClient of Some h \<Rightarrow> quit_ignore env h w2 | None \<Rightarrow> w2))
           | (Inr (token, ttl), w2) \<Rightarrow> (Inr token, save_token P env redisClient token ttl w2)))"

section \<open>makeCustomRequest\<close>

text \<open>Lines 152 to 167: the best-effort delete of the cached token.\<close>

definition delete_cached_token :: "env \<Rightarrow> world \<Rightarrow> world" where
  "delete_cached_token env w =
     (case getRedisClient env w of
        (Inl e, w1) \<Rightarrow> w1
      | (Inr h, w1) \<Rightarrow> quit_ignore env h (w1 @ [EDel h ''tuya_token'' (redis_del env w1 = None)]))"

definition requestConfig :: "string \<Rightarrow> string \<Rightarrow> jsval \<Rightarrow> jsval \<Rightarrow> signature \<Rightarrow> request" where
  "requestConfig method path dat access_token sg =
     \<lparr> req_method = toUpperCase method,
       req_url = baseUrl @ path,
       req_headers = [(''client_id'', JStr (clientId sg)), (''access_token'', access_token),
                      (''sign'', JStr (sign sg)), (''t'', JStr (timestamp sg)),
                      (''sign_method'', JStr ''HMAC-SHA256''),
                      (''Content-Type'', JStr ''application/json'')],
       req_data = (if truthy dat \<and> toUpperCase method \<in> set [''POST'', ''PUT'', ''PATCH'']
                   then Some dat else None),
       req_timeout = 10000 \<rparr>"

text \<open>
  \<^verbatim>\<open>makeCustomRequest(method, path, data = null, retry = true)\<close>. The
  \<^verbatim>\<open>catch\<close> logs and rethrows, so every error passes through unchanged. The read
  \<^verbatim>\<open>response.data.success\<close> on line 177 throws when the body is null.
\<close>

function makeCustomRequest ::
  "platform \<Rightarrow> env \<Rightarrow> string \<Rightarrow> string \<Rightarrow> jsval \<Rightarrow> bool \<Rightarrow> world \<Rightarrow> (error + jsval) \<times> world" where
  "makeCustomRequest P env method path dat retry w =
     (case getAccessToken P env w of
        (Inl e, w1) \<Rightarrow> (Inl e, w1)
      | (Inr access_token, w1) \<Rightarrow>
          (let body = (if truthy dat then JSON_stringify P dat else '''') in
           case generateSign P env w1 (toUpperCase method) path (Some body) access_token of
             Inl e \<Rightarrow> (Inl e, w1)
           | Inr sg \<Rightarrow>
               (case axios env (\<lambda>s. 200 \<le> s \<and> s < 500)
                       (EAxios (requestConfig method path dat access_token sg)) w1 of
                  (Inl e, w2) \<Rightarrow> (Inl e, w2)
                | (Inr response, w2) \<Rightarrow>
                    if js_opt (data response) ''code'' = JNum (Fin 1010) \<and> retry
                    then makeCustomRequest P env method path dat False (delete_cached_token env w2)
                    else if status response \<ge> 400 then (Inr (data response), w2)
                    else (case js_get (data response) ''success'' of
                            Inl e \<Rightarrow> (Inl e, w2)
                          | Inr s \<Rightarrow> (Inr (data response), w2)))))"
  by pat_completeness auto
termination
  by (relation "measure (\<lambda>(P, env, method, path, dat, retry, w). if retry then 1 else 0)") auto

declare makeCustomRequest.simps [simp del]

section \<open>parseFloat\<close>

text \<open>
  \<^verbatim>\<open>parseFloat\<close> converts its argument to a string, skips leading white space (the
  ASCII white space here) and reads the longest prefix that is a decimal literal: an
  optional sign, then \<^verbatim>\<open>Infinity\<close> or digits with an optional fraction and an
  optional exponent. Without such a prefix the result is \<^verbatim>\<open>NaN\<close>. The value is the
  exact rational the literal denotes.
\<close>

definition is_space :: "char \<Rightarrow> bool" where
  "is_space c = (of_char c \<in> set [9, 10, 11, 12, 13, 32 :: nat])"

definition is_digit :: "char \<Rightarrow> bool" where
  "is_digit c = ((48::nat) \<le> of_char c \<and> of_char c \<le> (57::nat))"

definition digits_value :: "string \<Rightarrow> nat" where
  "digits_value ds = foldl (\<lambda>a c. 10 * a + (of_char c - 48)) 0 ds"

text \<open>The exponent part, when the rest of the input starts with one; otherwise 0.\<close>

definition exponent_part :: "string \<Rightarrow> int" where
  "exponent_part s =
     (case s of
        [] \<Rightarrow> 0
      | c # r \<Rightarrow>
          if c = CHR ''e'' \<or> c = CHR ''E'' then
            (case r of
               [] \<Rightarrow> 0
             | d # r' \<Rightarrow>
                 if d = CHR ''-'' then
                   (if takeWhile is_digit r' = [] then 0 else - int (digits_value (takeWhile is_digit r')))
                 else if d = CHR ''+'' then int (digits_value (takeWhile is_digit r'))
                 else int (digits_value (takeWhile is_digit r)))
          else 0)"

definition scale10 :: "rat \<Rightarrow> int \<Rightarrow> rat" where
  "scale10 r e = (if 0 \<le> e then r * 10 ^ nat e else r / 10 ^ nat (- e))"

definition parseFloat_string :: "string \<Rightarrow> jsnum" where
  "parseFloat_string s =
     (let s1 = dropWhile is_space s;
          neg = (case s1 of [] \<Rightarrow> False | c # r \<Rightarrow> c = CHR ''-'');
          s2 = (case s1 of [] \<Rightarrow> [] | c # r \<Rightarrow> if c = CHR ''-'' \<or> c = CHR ''+'' then r else s1)
      in if take 8 s2 = ''Infinity'' then (if neg then NegInf else PosInf)
         else
           let ip = takeWhile is_digit s2;
               r1 = dropWhile is_digit s2;
               fp = (case r1 of [] \<Rightarrow> [] | c # r \<Rightarrow> if c = CHR ''.'' then takeWhile is_digit r else []);
               r2 = (case r1 of [] \<Rightarrow> [] | c # r \<Rightarrow> if c = CHR ''.'' then dropWhile is_digit r else r1)
           in if ip = [] \<and> fp = [] then NaN
              else
                let mant = of_nat (digits_value ip) + of_nat (digits_value fp) / 10 ^ length fp
                in Fin (scale10 (if neg then - mant else mant) (exponent_part r2)))"

definition parseFloat :: "platform \<Rightarrow> jsval \<Rightarrow> jsnum" where
  "parseFloat P v = parseFloat_string (ToString P v)"

section \<open>The exported function\<close>

text \<open>The query parameters the module reads; each is absent or a string.\<close>

record queryParams =
  q_action :: "string option"
  q_path :: "string option"
  q_method :: "string option"
  q_data :: "string option"
  q_id :: "string option"
  q_command :: "string option"
  q_code :: "string option"

text \<open>\<^verbatim>\<open>x || d\<close> on a parameter.\<close>

definition or_default :: "string option \<Rightarrow> string \<Rightarrow> string" where
  "or_default x d = (if truthy_str x then the x else d)"

text \<open>\<^verbatim>\<open>Array.isArray\<close>, the length of an array, and an indexed read.\<close>

fun isArray :: "jsval \<Rightarrow> bool" where
  "isArray (JArr xs) = True"
| "isArray v = False"

fun array_length :: "jsval \<Rightarrow> nat" where
  "array_length (JArr xs) = length xs"
| "array_length v = 0"

fun js_index :: "jsval \<Rightarrow> nat \<Rightarrow> jsval" where
  "js_index (JArr xs) i = (if i < length xs then xs ! i else JUndefined)"
| "js_index v i = JUndefined"

text \<open>
  In each action the first read of a property of \<^verbatim>\<open>result\<close> throws when the
  envelope is null or undefined; the later reads of the same object cannot throw.
\<close>

definition request_action ::
  "platform \<Rightarrow> env \<Rightarrow> queryParams \<Rightarrow> world \<Rightarrow> (error + jsval) \<times> world" where
  "request_action P env q w =
     (let method = toUpperCase (or_default (q_method q) ''GET'');
          path = (if take 1 (the (q_path q)) = ''/'' then the (q_path q) else ''/'' @ the (q_path q))
      in case (if truthy_str (q_data q) then JSON_parse P (the (q_data q)) else Inr JNull) of
           Inl m \<Rightarrow>
             (Inr (JObj [(''success'', JBool False),
                         (''message'', JStr ''Invalid JSON format in data parameter''),
                         (''error'', JStr m)]), w)
         | Inr dat \<Rightarrow>
             (case makeCustomRequest P env method path dat True w of
                (Inl e, w') \<Rightarrow> (Inl e, w')
              | (Inr result, w') \<Rightarrow>
                  (case js_get result ''success'' of
                     Inl e \<Rightarrow> (Inl e, w')
                   | Inr success \<Rightarrow>
                       (Inr (JObj [(''success'', success), (''path'', JStr path),
                                   (''method'', JStr method), (''result'', result),
                                   (''message'', JStr (''Request '' @ method @ '' '' @ path @ '' processed.''))]),
                        w'))))"

definition status_action ::
  "platform \<Rightarrow> env \<Rightarrow> queryParams \<Rightarrow> world \<Rightarrow> (error + jsval) \<times> world" where
  "status_action P env q w =
     (let deviceId = the (q_id q);
          path = ''/v1.0/iot-03/devices/'' @ deviceId @ ''/status''
      in case makeCustomRequest P env ''GET'' path JNull True w of
           (Inl e, w') \<Rightarrow> (Inl e, w')
         | (Inr result, w') \<Rightarrow>
             (case js_get result ''success'' of
                Inl e \<Rightarrow> (Inl e, w')
              | Inr success \<Rightarrow>
                  if truthy success \<and> isArray (js_opt result ''result'')
                     \<and> array_length (js_opt result ''result'') > 0
                     \<and> js_opt (js_index (js_opt result ''result'') 0) ''value'' \<noteq> JUndefined
                  then
                    (Inr (JNum (num_div
                       (parseFloat P (js_opt (js_index (js_opt result ''result'') 0) ''value'')) 10)), w')
                  else
                    (Inr (JObj [(''success'', JBool False),
                                (''message'', JStr ''Failed to parse device status data''),
                                (''tuya_response'', result)]), w')))"

definition devices_action ::
  "platform \<Rightarrow> env \<Rightarrow> queryParams \<Rightarrow> world \<Rightarrow> (error + jsval) \<times> world" where
  "devices_action P env q w =
     (case makeCustomRequest P env ''GET'' ''/v1.0/users/me/devices'' JNull True w of
        (Inl e, w') \<Rightarrow> (Inl e, w')
      | (Inr result, w') \<Rightarrow>
          (case js_get result ''success'' of
             Inl e \<Rightarrow> (Inl e, w')
           | Inr success \<Rightarrow>
               (Inr (JObj [(''success'', success),
                           (''devices'', js_or (js_opt result ''result'') (JArr [])),
                           (''message'', JStr (if truthy success then ''Tuya device list retrieved''
                              else ''Error getting device list: '' @
                                   ToString P (js_or (js_opt result ''msg'') (JStr ''Unknown error'')))),
                           (''tuya_code'', js_opt result ''code''),
                           (''tuya_msg'', js_opt result ''msg'')]), w')))"

definition state_action ::
  "platform \<Rightarrow> env \<Rightarrow> queryParams \<Rightarrow> world \<Rightarrow> (error + jsval) \<times> world" where
  "state_action P env q w =
     (let deviceId = the (q_id q);
          path = ''/v1.0/devices/'' @ deviceId
      in case makeCustomRequest P env ''GET'' path JNull True w of
           (Inl e, w') \<Rightarrow> (Inl e, w')
         | (Inr result, w') \<Rightarrow>
             (case js_get result ''success'' of
                Inl e \<Rightarrow> (Inl e, w')
              | Inr success \<Rightarrow>
                  (Inr (JObj [(''success'', success),
                              (''state'', js_or (js_opt result ''result'') JNull),
                              (''message'', JStr (if truthy success then ''State for device '' @ deviceId
                                 else ''Error getting state: '' @
                                      ToString P (js_or (js_opt result ''msg'') (JStr ''Unknown error'')))),
                              (''tuya_code'', js_opt result ''code''),
                              (''tuya_msg'', js_opt result ''msg'')]), w')))"

definition control_action ::
  "platform \<Rightarrow> env \<Rightarrow> queryParams \<Rightarrow> world \<Rightarrow> (error + jsval) \<times> world" where
  "control_action P env q w =
     (let deviceId = the (q_id q);
          command = toLowerCase (the (q_command q))
      in if command \<noteq> ''on'' \<and> command \<noteq> ''off''
         then (Inr (JObj [(''success'', JBool False),
                          (''message'', JStr (''Invalid command. Only '' @ [CHR 0x22] @ ''on'' @ [CHR 0x22]
                             @ '' or '' @ [CHR 0x22] @ ''off'' @ [CHR 0x22] @ '' are supported.''))]), w)
         else
           let path = ''/v1.0/devices/'' @ deviceId @ ''/commands'';
               commandCode = or_default (q_code q) ''switch_1'';
               payload = JObj [(''commands'',
                           JArr [JObj [(''code'', JStr commandCode), (''value'', JBool (command = ''on''))]])]
           in case makeCustomRequest P env ''POST'' path payload True w of
                (Inl e, w') \<Rightarrow> (Inl e, w')
              | (Inr result, w') \<Rightarrow>
                  (case js_get result ''success'' of
                     Inl e \<Rightarrow> (Inl e, w')
                   | Inr success \<Rightarrow>
                       (Inr (JObj [(''success'', success),
                                   (''result'', js_opt result ''result''),
                                   (''message'', JStr (if truthy success
                                      then ''Command '' @ command @ '' (code: '' @ commandCode
                                           @ '') successfully sent to device '' @ deviceId
                                      else ''Error sending command to device '' @ deviceId @ '': '' @
                                           ToString P (js_or (js_opt result ''msg'') (JStr ''Unknown error'')))),
                                   (''tuya_code'', js_opt result ''code''),
                                   (''tuya_msg'', js_opt result ''msg'')]), w')))"

text \<open>The body of the \<^verbatim>\<open>try\<close> of the exported function, lines 206 to 315.\<close>

definition dispatch ::
  "platform \<Rightarrow> env \<Rightarrow> queryParams \<Rightarrow> world \<Rightarrow> (error + jsval) \<times> world" where
  "dispatch P env q w =
     (let action = or_default (q_action q) ''test'' in
      if action = ''test'' then
        (Inr (JObj [(''success'', JBool True), (''message'', JStr ''Tuya module working''),
                    (''timestamp'', JStr (date_iso env w))]), w)
      else if action = ''request'' \<and> truthy_str (q_path q) then request_action P env q w
      else if action = ''status'' \<and> truthy_str (q_id q) then status_action P env q w
      else if action = ''devices'' then devices_action P env q w
      else if action = ''state'' \<and> truthy_str (q_id q) then state_action P env q w
      else if action = ''control'' \<and> truthy_str (q_id q) \<and> truthy_str (q_command q)
        then control_action P env q w
      else (Inr (JObj [(''success'', JBool False),
                       (''message'', JStr ''Unknown action or missing required parameters.''),
                       (''action'', JStr action)]), w))"

text \<open>
  \<^verbatim>\<open>module.exports\<close>: the credential check, then the \<^verbatim>\<open>try\<close>, whose
  \<^verbatim>\<open>catch\<close> turns every error into a failure object.
\<close>

definition tuyaModule :: "platform \<Rightarrow> env \<Rightarrow> queryParams \<Rightarrow> world \<Rightarrow> jsval \<times> world" where
  "tuyaModule P env q w =
     (if \<not> truthy_str (TUYA_CLIENT_ID env) \<or> \<not> truthy_str (TUYA_CLIENT_SECRET env)
      then (JObj [(''success'', JBool False),
                  (''message'', JStr ''Server error: Missing Tuya credentials.'')], w)
      else (case dispatch P env q w of
              (Inr v, w') \<Rightarrow> (v, w')
            | (Inl e, w') \<Rightarrow>
                (JObj [(''success'', JBool False),
                       (''error'', JStr (error_message e)),
                       (''tuya_response'', (case error_response e of None \<Rightarrow> JUndefined | Some r \<Rightarrow> data r)),
                       (''message'', JStr ''Internal error processing Tuya request.'')], w')))"

section \<open>Observing a trace\<close>

text \<open>The events a call added to the trace it started from.\<close>

definition emitted :: "world \<Rightarrow> world \<Rightarrow> world" where
  "emitted w w' = drop (length w) w'"

fun is_auth_call :: "event \<Rightarrow> bool" where
  "is_auth_call (EAxiosGet r) = True"
| "is_auth_call e = False"

fun is_api_call :: "event \<Rightarrow> bool" where
  "is_api_call (EAxios r) = True"
| "is_api_call e = False"

fun is_set :: "event \<Rightarrow> bool" where
  "is_set (ESet h k v t ok) = True"
| "is_set e = False"

fun is_quit_of :: "nat \<Rightarrow> event \<Rightarrow> bool" where
  "is_quit_of h (EQuit h' ok) = (h' = h)"
| "is_quit_of h e = False"

fun is_release_of :: "nat \<Rightarrow> event \<Rightarrow> bool" where
  "is_release_of h (EQuit h' ok) = (h' = h \<and> ok)"
| "is_release_of h e = False"

definition auth_calls :: "world \<Rightarrow> nat" where
  "auth_calls w = length (filter is_auth_call w)"

definition api_calls :: "world \<Rightarrow> nat" where
  "api_calls w = length (filter is_api_call w)"

definition cache_writes :: "world \<Rightarrow> nat" where
  "cache_writes w = length (filter is_set w)"

definition quits :: "nat \<Rightarrow> world \<Rightarrow> nat" where
  "quits h w = length (filter (is_quit_of h) w)"

definition releases :: "nat \<Rightarrow> world \<Rightarrow> nat" where
  "releases h w = length (filter (is_release_of h) w)"

text \<open>The handles of the connections opened in a trace.\<close>

fun connected_handle :: "event \<Rightarrow> nat list" where
  "connected_handle (EConnect (Some h)) = [h]"
| "connected_handle e = []"

definition acquired :: "world \<Rightarrow> nat list" where
  "acquired w = concat (map connected_handle w)"

text \<open>The method and URL of every resource request in a trace, in order.\<close>

fun api_request_line :: "event \<Rightarrow> (string \<times> string) list" where
  "api_request_line (EAxios r) = [(req_method r, req_url r)]"
| "api_request_line e = []"

definition api_requests :: "world \<Rightarrow> (string \<times> string) list" where
  "api_requests w = concat (map api_request_line w)"

section \<open>Conditions on the environment and on the vendor's answer\<close>

definition credentials :: "env \<Rightarrow> bool" where
  "credentials env \<longleftrightarrow> truthy_str (TUYA_CLIENT_ID env) \<and> truthy_str (TUYA_CLIENT_SECRET env)"

definition redis_configured :: "env \<Rightarrow> bool" where
  "redis_configured env \<longleftrightarrow>
     truthy_str (REDIS_HOST env) \<and> truthy_str (REDIS_PORT env) \<and> truthy_str (REDIS_PASSWORD env)"

text \<open>The envelope of the token endpoint passes the test on line 65.\<close>

definition valid_token_envelope :: "jsval \<Rightarrow> bool" where
  "valid_token_envelope d \<longleftrightarrow>
     truthy (js_opt d ''success'') \<and> truthy (js_opt (js_opt d ''result'') ''access_token'')"

definition reply_token :: "jsval \<Rightarrow> jsval" where
  "reply_token d = js_opt (js_opt d ''result'') ''access_token''"

definition reply_expire :: "jsval \<Rightarrow> jsval" where
  "reply_expire d = js_opt (js_opt d ''result'') ''expire_time''"

text \<open>The TTL in the words of the specification: the expiry minus the margin of 60
  seconds when the expiry exceeds the margin, otherwise the expiry itself.\<close>

definition computed_ttl :: "platform \<Rightarrow> jsval \<Rightarrow> jsval" where
  "computed_ttl P e = (if js_gt P e 60 then js_sub P e 60 else e)"

text \<open>
  Connections and their release in the events \<open>E\<close> of a call that started with \<open>n\<close>
  connections made: every connection opened in \<open>E\<close> is new, \<^verbatim>\<open>quit\<close> was called on it
  once or twice and resolved at most once, and exactly once when no \<^verbatim>\<open>quit\<close>
  rejects; no other connection was quit.
\<close>

definition handles_ok :: "env \<Rightarrow> nat \<Rightarrow> world \<Rightarrow> bool" where
  "handles_ok env n E \<longleftrightarrow>
     (\<forall>h \<in> set (acquired E). n \<le> h \<and> h < n + length (acquired E)
          \<and> 1 \<le> quits h E \<and> quits h E \<le> 2 \<and> releases h E \<le> 1
          \<and> ((\<forall>t. redis_quit env t = None) \<longrightarrow> quits h E = 1 \<and> releases h E = 1))
     \<and> (\<forall>h. h \<notin> set (acquired E) \<longrightarrow> quits h E = 0)"

text \<open>The vendor answers every token request with a valid envelope.\<close>

definition vendor_issues_tokens :: "env \<Rightarrow> bool" where
  "vendor_issues_tokens env \<longleftrightarrow>
     (\<forall>t. t \<noteq> [] \<and> is_auth_call (last t) \<longrightarrow>
        (\<exists>r. axios_reply env t = Inr r \<and> 200 \<le> status r \<and> status r < 300
             \<and> valid_token_envelope (data r)))"

text \<open>Every connection opened in \<open>E\<close> is quit exactly once and thereby released.\<close>

definition quit_once :: "world \<Rightarrow> bool" where
  "quit_once E \<longleftrightarrow> (\<forall>h \<in> set (acquired E). quits h E = 1 \<and> releases h E = 1)"

text \<open>On every connection opened in \<open>E\<close>, \<^verbatim>\<open>quit\<close> is called once or twice and
  resolves at most once.\<close>

definition quit_attempted :: "world \<Rightarrow> bool" where
  "quit_attempted E \<longleftrightarrow>
     (\<forall>h \<in> set (acquired E). 1 \<le> quits h E \<and> quits h E \<le> 2 \<and> releases h E \<le> 1)"

text \<open>The vendor answers every resource request with the invalid-token code 1010.\<close>

definition vendor_rejects_token :: "env \<Rightarrow> bool" where
  "vendor_rejects_token env \<longleftrightarrow>
     (\<forall>t. t \<noteq> [] \<and> is_api_call (last t) \<longrightarrow>
        (\<exists>r. axios_reply env t = Inr r \<and> 200 \<le> status r \<and> status r < 500
             \<and> js_opt (data r) ''code'' = JNum (Fin 1010)))"

text \<open>The delete calls in a trace.\<close>

fun is_del :: "event \<Rightarrow> bool" where
  "is_del (EDel h k ok) = True"
| "is_del e = False"

definition deletes :: "world \<Rightarrow> nat" where
  "deletes w = length (filter is_del w)"

text \<open>
  The best-effort delete of the cached token in the words of the specification: a
  connection to the cache is opened; when that succeeds, the key \<open>tuya_token\<close> is
  deleted and the connection is quit, whatever the outcome of the delete and of the
  \<^verbatim>\<open>quit\<close>; when it fails, nothing more is done.
\<close>

definition best_effort_delete :: "env \<Rightarrow> world \<Rightarrow> world" where
  "best_effort_delete env w =
     (if \<not> redis_configured env then []
      else if redis_connect env w \<noteq> None then [EConnect None]
      else [EConnect (Some (fresh w)),
            EDel (fresh w) ''tuya_token'' (redis_del env (w @ [EConnect (Some (fresh w))]) = None),
            EQuit (fresh w)
              (redis_quit env (w @ [EConnect (Some (fresh w)),
                 EDel (fresh w) ''tuya_token'' (redis_del env (w @ [EConnect (Some (fresh w))]) = None)])
               = None)])"

section \<open>Test doubles\<close>

text \<open>
  Concrete stand-ins for the engine, the vendor and the Redis server, on which the
  theorems below are instantiated. The digests only mark what they were applied to.
\<close>

definition test_platform :: platform where
  "test_platform =
     \<lparr> sha256_hex = (\<lambda>s. ''sha256:'' @ s),
       hmac_sha256_hex = (\<lambda>k m. ''hmac:'' @ k @ '':'' @ m),
       ToString_value = (\<lambda>v. ''[object Object]''),
       StringToNumber = parseFloat_string,
       JSON_stringify = (\<lambda>v. ''{}''),
       JSON_parse = (\<lambda>s. Inl ''Unexpected token'') \<rparr>"

definition token_envelope :: "rat \<Rightarrow> jsval" where
  "token_envelope t =
     JObj [(''success'', JBool True),
           (''result'', JObj [(''access_token'', JStr ''tok''), (''expire_time'', JNum (Fin t))])]"

definition status_envelope :: jsval where
  "status_envelope =
     JObj [(''success'', JBool True), (''result'', JArr [JObj [(''value'', JStr ''235'')]])]"

definition sentinel_envelope :: jsval where
  "sentinel_envelope =
     JObj [(''success'', JBool False), (''code'', JNum (Fin 1010)), (''msg'', JStr ''token invalid'')]"

text \<open>The vendor answers the token request with a token and every other request
  with the given envelope.\<close>

definition vendor :: "rat \<Rightarrow> jsval \<Rightarrow> world \<Rightarrow> string + response" where
  "vendor t envelope w =
     (if w \<noteq> [] \<and> is_auth_call (last w)
      then Inr \<lparr> status = 200, data = token_envelope t \<rparr>
      else Inr \<lparr> status = 200, data = envelope \<rparr>)"

text \<open>Redis up with an empty cache, and the vendor up.\<close>

definition test_env :: env where
  "test_env =
     \<lparr> TUYA_CLIENT_ID = Some ''id'', TUYA_CLIENT_SECRET = Some ''secret'',
       REDIS_HOST = Some ''localhost'', REDIS_PORT = Some ''6379'', REDIS_PASSWORD = Some ''pw'',
       date_now = (\<lambda>w. 1234), date_iso = (\<lambda>w. ''2026-01-01T00:00:00.000Z''),
       redis_connect = (\<lambda>w. None), redis_get = (\<lambda>w. Inr None),
       redis_set = (\<lambda>w. None), redis_del = (\<lambda>w. None), redis_quit = (\<lambda>w. None),
       axios_reply = vendor 7200 status_envelope \<rparr>"


text \<open>The cache holds a token.\<close>

definition env_cached :: env where
  "env_cached = test_env \<lparr> redis_get := (\<lambda>w. Inr (Some ''cached'')) \<rparr>"

text \<open>The cache holds a token and every \<^verbatim>\<open>quit\<close> rejects.\<close>

definition env_cached_quit_fails :: env where
  "env_cached_quit_fails = env_cached \<lparr> redis_quit := (\<lambda>w. Some ''Socket closed'') \<rparr>"

text \<open>The cache holds a token and only the first \<^verbatim>\<open>quit\<close> on the first connection
  rejects.\<close>

definition env_cached_first_quit_fails :: env where
  "env_cached_first_quit_fails =
     env_cached \<lparr> redis_quit := (\<lambda>w. if quits 0 w = 0 then Some ''Socket closed'' else None) \<rparr>"

text \<open>The vendor answers every resource request with the invalid-token code.\<close>

definition env_sentinel :: env where
  "env_sentinel = test_env \<lparr> axios_reply := vendor 7200 sentinel_envelope \<rparr>"

text \<open>The vendor reports 30 seconds of remaining lifetime.\<close>

definition env_short_lived :: env where
  "env_short_lived = test_env \<lparr> axios_reply := vendor 30 status_envelope \<rparr>"

definition status_query :: queryParams where
  "status_query =
     \<lparr> q_action = Some ''status'', q_path = None, q_method = None, q_data = None,
       q_id = Some ''dev1'', q_command = None, q_code = None \<rparr>"

definition control_query :: "string \<Rightarrow> queryParams" where
  "control_query c =
     \<lparr> q_action = Some ''control'', q_path = None, q_method = None, q_data = None,
       q_id = Some ''dev1'', q_command = Some c, q_code = None \<rparr>"

section \<open>The signature\<close>

text \<open>
  Claim C4. With both credentials configured, \<open>generateSign\<close> returns the uppercase
  hexadecimal HMAC-SHA256, keyed by the client secret, of client id, token and timestamp
  followed by method, newline, the SHA-256 hex hash of the body, an empty line and the
  path; the timestamp returned is the one that was signed; an omitted body is hashed as
  the empty string and an omitted token is the empty string; and the result is a function
  of method, path, body, token, the two credentials and the clock reading alone: two
  environments that agree on these give the same result.
\<close>

theorem generateSign_spec:
  assumes "TUYA_CLIENT_ID env = Some cid" and "cid \<noteq> []"
    and "TUYA_CLIENT_SECRET env = Some secret" and "secret \<noteq> []"
  shows "generateSign P env w method path (Some body) (JStr token) =
           Inr \<lparr> sign = spec_signature P cid secret (decimal (date_now env w)) method path body token,
                 timestamp = decimal (date_now env w), clientId = cid \<rparr>
         \<and> generateSign P env w method path None (JStr token) =
             generateSign P env w method path (Some []) (JStr token)
         \<and> generateSign P env w method path (Some body) JUndefined =
             generateSign P env w method path (Some body) (JStr [])
         \<and> (TUYA_CLIENT_ID env' = Some cid \<and> TUYA_CLIENT_SECRET env' = Some secret
              \<and> date_now env' w' = date_now env w
            \<longrightarrow> generateSign P env' w' method path (Some body) (JStr token) =
                generateSign P env w method path (Some body) (JStr token))"
  using assms by (simp add: generateSign_def spec_signature_def ToString_def Let_def)

theorem generateSign_spec_witness:
  "generateSign test_platform test_env [] ''GET'' ''/v1.0/devices/dev1'' (Some []) (JStr ''tok'') =
     Inr \<lparr> sign = ''HMAC:SECRET:IDTOK1234GET'' @ [CHR 0x0A] @ ''SHA256:'' @ [CHR 0x0A, CHR 0x0A]
                   @ ''/V1.0/DEVICES/DEV1'',
           timestamp = ''1234'', clientId = ''id'' \<rparr>"
  using generateSign_spec [of test_env "''id''" "''secret''" test_platform "[]" "''GET''"
      "''/v1.0/devices/dev1''" "[]" "''tok''" test_env "[]"]
  by (simp add: test_env_def test_platform_def spec_signature_def toUpperCase_def upper_char_def
      decimal.simps digit_char_def char_of_eq_iff)

section \<open>The exported function: credentials and the default action\<close>

text \<open>
  Claim C8. When the client id or the client secret is absent (or empty), every call of
  the module returns exactly the object with \<open>success\<close> false and the message
  \<open>Server error: Missing Tuya credentials.\<close>, and the trace is unchanged: no network
  and no cache call was made.
\<close>

theorem missing_credentials:
  assumes "\<not> truthy_str (TUYA_CLIENT_ID env) \<or> \<not> truthy_str (TUYA_CLIENT_SECRET env)"
  shows "tuyaModule P env q w =
           (JObj [(''success'', JBool False),
                  (''message'', JStr ''Server error: Missing Tuya credentials.'')], w)"
  using assms by (simp add: tuyaModule_def)

theorem missing_credentials_witness:
  "tuyaModule test_platform (test_env \<lparr> TUYA_CLIENT_SECRET := None \<rparr>) status_query [] =
           (JObj [(''success'', JBool False),
                  (''message'', JStr ''Server error: Missing Tuya credentials.'')], [])"
  using missing_credentials [of "test_env \<lparr> TUYA_CLIENT_SECRET := None \<rparr>" test_platform status_query "[]"]
  by (simp add: test_env_def)

text \<open>
  Claim C10. With the credentials configured and the action parameter absent (or empty),
  the module treats the action as \<open>test\<close>: it returns the static acknowledgement with
  \<open>success\<close> true, the message \<open>Tuya module working\<close> and a timestamp, and the
  trace is unchanged.
\<close>

theorem default_action_test:
  assumes "truthy_str (TUYA_CLIENT_ID env)" and "truthy_str (TUYA_CLIENT_SECRET env)"
    and "\<not> truthy_str (q_action q)"
  shows "tuyaModule P env q w =
           (JObj [(''success'', JBool True), (''message'', JStr ''Tuya module working''),
                  (''timestamp'', JStr (date_iso env w))], w)"
  using assms by (simp add: tuyaModule_def dispatch_def or_default_def)

theorem default_action_test_witness:
  "tuyaModule test_platform test_env (status_query \<lparr> q_action := None \<rparr>) [] =
           (JObj [(''success'', JBool True), (''message'', JStr ''Tuya module working''),
                  (''timestamp'', JStr ''2026-01-01T00:00:00.000Z'')], [])"
  using default_action_test [of test_env "status_query \<lparr> q_action := None \<rparr>" test_platform "[]"]
  by (simp add: test_env_def status_query_def)

section \<open>Running the model on the test doubles\<close>

lemmas eval_defs = getAccessToken_def read_cache_def request_token_def save_token_def
  getRedisClient_def quit_def quit_ignore_def axios_def generateSign_def delete_cached_token_def
  requestConfig_def makeCustomRequest.simps
  test_env_def test_platform_def vendor_def token_envelope_def status_envelope_def
  fresh_def redisKey_def baseUrl_def tokenPath_def
  js_gt_def js_sub_def js_or_def ToNumber_def ToString_def toUpperCase_def upper_char_def
  toLowerCase_def lower_char_def decimal.simps digit_char_def char_of_eq_iff

lemma test_status_request:
  "fst (makeCustomRequest test_platform test_env ''GET'' ''/v1.0/iot-03/devices/dev1/status'' JNull True [])
     = Inr status_envelope"
  by (simp add: eval_defs)

section \<open>The status action\<close>

text \<open>
  Claim C5. For the \<open>status\<close> action with a device id, when the request returns an
  envelope (a value that is not null or undefined) whose \<open>success\<close> is true and whose
  \<open>result\<close> is a non-empty array with first element's \<open>value\<close> equal to the string
  \<open>235\<close>, the module returns the bare number 23.5; when the envelope lacks that shape
  (no true \<open>success\<close>, no non-empty array, or a first element without \<open>value\<close>), it
  returns the failure object with \<open>success\<close> false that carries the envelope under
  \<open>tuya_response\<close>.
\<close>

theorem status_action_value:
  assumes "truthy_str (TUYA_CLIENT_ID env)" and "truthy_str (TUYA_CLIENT_SECRET env)"
    and "q_action q = Some ''status''" and "truthy_str (q_id q)"
    and "makeCustomRequest P env ''GET'' (''/v1.0/iot-03/devices/'' @ the (q_id q) @ ''/status'')
           JNull True w = (Inr result, w')"
    and "result \<noteq> JNull" and "result \<noteq> JUndefined"
  shows "(truthy (js_opt result ''success'')
            \<and> (\<exists>x xs. js_opt result ''result'' = JArr (x # xs) \<and> js_opt x ''value'' = JStr ''235'')
          \<longrightarrow> tuyaModule P env q w = (JNum (Fin 23.5), w'))
       \<and> (\<not> (truthy (js_opt result ''success'')
               \<and> (\<exists>x xs. js_opt result ''result'' = JArr (x # xs) \<and> js_opt x ''value'' \<noteq> JUndefined))
          \<longrightarrow> tuyaModule P env q w =
                (JObj [(''success'', JBool False),
                       (''message'', JStr ''Failed to parse device status data''),
                       (''tuya_response'', result)], w'))"
proof -
  have p235: "parseFloat P (JStr ''235'') = Fin 235"
    by (simp add: parseFloat_def ToString_def parseFloat_string_def is_digit_def is_space_def
        digits_value_def exponent_part_def scale10_def)
  obtain s where s: "js_get result ''success'' = Inr s"
    using assms(6,7) by (cases result) auto
  then have s': "js_opt result ''success'' = s" by simp
  have shape: "(isArray v \<and> array_length v > 0 \<and> js_opt (js_index v 0) ''value'' \<noteq> JUndefined)
      \<longleftrightarrow> (\<exists>x xs. v = JArr (x # xs) \<and> js_opt x ''value'' \<noteq> JUndefined)" for v
  proof (cases v)
    case (JArr ys)
    then show ?thesis by (cases ys) auto
  qed auto
  have d: "dispatch P env q w = status_action P env q w"
    using assms(3,4) by (simp add: dispatch_def or_default_def)
  show ?thesis
  proof (intro conjI impI)
    assume a: "truthy (js_opt result ''success'')
            \<and> (\<exists>x xs. js_opt result ''result'' = JArr (x # xs) \<and> js_opt x ''value'' = JStr ''235'')"
    then obtain x xs where r: "js_opt result ''result'' = JArr (x # xs)"
      and v: "js_opt x ''value'' = JStr ''235''"
      by blast
    from a s' have "truthy s" by simp
    then show "tuyaModule P env q w = (JNum (Fin 23.5), w')"
      using assms(1,2,5) s r v d p235
      by (simp add: tuyaModule_def status_action_def del: js_opt.simps)
  next
    assume a: "\<not> (truthy (js_opt result ''success'')
               \<and> (\<exists>x xs. js_opt result ''result'' = JArr (x # xs) \<and> js_opt x ''value'' \<noteq> JUndefined))"
    then have "\<not> (truthy s \<and> isArray (js_opt result ''result'')
        \<and> array_length (js_opt result ''result'') > 0
        \<and> js_opt (js_index (js_opt result ''result'') 0) ''value'' \<noteq> JUndefined)"
      using shape [of "js_opt result ''result''"] s' by blast
    then show "tuyaModule P env q w =
                (JObj [(''success'', JBool False),
                       (''message'', JStr ''Failed to parse device status data''),
                       (''tuya_response'', result)], w')"
      using assms(1,2,5) s d
      by (simp add: tuyaModule_def status_action_def del: js_opt.simps)
  qed
qed

theorem status_action_value_witness:
  "fst (tuyaModule test_platform test_env status_query []) = JNum (Fin 23.5)"
proof -
  let ?w = "snd (makeCustomRequest test_platform test_env ''GET''
                   ''/v1.0/iot-03/devices/dev1/status'' JNull True [])"
  have m: "makeCustomRequest test_platform test_env ''GET''
            (''/v1.0/iot-03/devices/'' @ the (q_id status_query) @ ''/status'') JNull True []
           = (Inr status_envelope, ?w)"
    using test_status_request by (simp add: status_query_def prod_eq_iff)
  have "tuyaModule test_platform test_env status_query [] = (JNum (Fin 23.5), ?w)"
    using status_action_value [of test_env status_query test_platform "[]" status_envelope ?w, OF _ _ _ _ m]
    by (simp add: test_env_def status_query_def status_envelope_def)
  then show ?thesis by simp
qed

section \<open>The control action\<close>

text \<open>
  Claim C7, as stated, fails: the command is lower-cased before it is compared, so the
  command \<open>ON\<close>, which is neither \<open>on\<close> nor \<open>off\<close>, is accepted and the POST to the
  commands path is made.
\<close>

theorem control_uppercase_counterexample:
  "''ON'' \<noteq> ''on'' \<and> ''ON'' \<noteq> ''off''
   \<and> api_requests (snd (tuyaModule test_platform test_env (control_query ''ON'') []))
       = [(''POST'', ''https://openapi.tuyaeu.com/v1.0/devices/dev1/commands'')]
   \<and> js_opt (fst (tuyaModule test_platform test_env (control_query ''ON'') [])) ''success'' = JBool True"
  by (simp add: tuyaModule_def dispatch_def control_action_def or_default_def control_query_def
      api_requests_def eval_defs)

text \<open>
  Claim C7, amended. For the \<open>control\<close> action with a device id, a command whose
  lower-case form is neither \<open>on\<close> nor \<open>off\<close> makes the module return the failure
  object with \<open>success\<close> false, and an absent or empty command the failure object for
  missing parameters, in both cases with the trace unchanged: nothing was requested from
  the cache or the vendor. A resource request is made only when the lower-cased command
  is \<open>on\<close> or \<open>off\<close>.
\<close>

theorem control_rejects_other_commands:
  assumes "truthy_str (TUYA_CLIENT_ID env)" and "truthy_str (TUYA_CLIENT_SECRET env)"
    and "q_action q = Some ''control''" and "truthy_str (q_id q)"
  shows "(truthy_str (q_command q) \<and> toLowerCase (the (q_command q)) \<noteq> ''on''
            \<and> toLowerCase (the (q_command q)) \<noteq> ''off''
          \<longrightarrow> tuyaModule P env q w =
                (JObj [(''success'', JBool False),
                       (''message'', JStr (''Invalid command. Only '' @ [CHR 0x22] @ ''on'' @ [CHR 0x22]
                          @ '' or '' @ [CHR 0x22] @ ''off'' @ [CHR 0x22] @ '' are supported.''))], w))
       \<and> (\<not> truthy_str (q_command q)
          \<longrightarrow> tuyaModule P env q w =
                (JObj [(''success'', JBool False),
                       (''message'', JStr ''Unknown action or missing required parameters.''),
                       (''action'', JStr ''control'')], w))
       \<and> (api_requests (emitted w (snd (tuyaModule P env q w))) \<noteq> []
          \<longrightarrow> toLowerCase (the (q_command q)) = ''on'' \<or> toLowerCase (the (q_command q)) = ''off'')"
  using assms
  by (auto simp add: tuyaModule_def dispatch_def control_action_def or_default_def Let_def
      emitted_def api_requests_def)

theorem control_rejects_other_commands_witness:
  "tuyaModule test_platform test_env (control_query ''up'') [] =
     (JObj [(''success'', JBool False),
            (''message'', JStr (''Invalid command. Only '' @ [CHR 0x22] @ ''on'' @ [CHR 0x22]
                          @ '' or '' @ [CHR 0x22] @ ''off'' @ [CHR 0x22] @ '' are supported.''))], [])"
  using control_rejects_other_commands [of test_env "control_query ''up''" test_platform "[]"]
  by (simp add: test_env_def control_query_def toLowerCase_def lower_char_def)

section \<open>The traces of the phases\<close>

lemma truthy_str_iff: "truthy_str x \<longleftrightarrow> (\<exists>s. x = Some s \<and> s \<noteq> [])"
  by (cases x) auto

lemma emitted_append [simp]: "emitted w (w @ evs) = evs"
  by (simp add: emitted_def)

lemma emitted_self [simp]: "emitted w w = []"
  by (simp add: emitted_def)

lemma auth_calls_simps [simp]:
  "auth_calls [] = 0"
  "auth_calls (e # es) = (if is_auth_call e then 1 else 0) + auth_calls es"
  "auth_calls (xs @ ys) = auth_calls xs + auth_calls ys"
  by (simp_all add: auth_calls_def)

lemma api_calls_simps [simp]:
  "api_calls [] = 0"
  "api_calls (e # es) = (if is_api_call e then 1 else 0) + api_calls es"
  "api_calls (xs @ ys) = api_calls xs + api_calls ys"
  by (simp_all add: api_calls_def)

lemma cache_writes_simps [simp]:
  "cache_writes [] = 0"
  "cache_writes (e # es) = (if is_set e then 1 else 0) + cache_writes es"
  "cache_writes (xs @ ys) = cache_writes xs + cache_writes ys"
  by (simp_all add: cache_writes_def)

lemma quits_simps [simp]:
  "quits h [] = 0"
  "quits h (e # es) = (if is_quit_of h e then 1 else 0) + quits h es"
  "quits h (xs @ ys) = quits h xs + quits h ys"
  by (simp_all add: quits_def)

lemma releases_simps [simp]:
  "releases h [] = 0"
  "releases h (e # es) = (if is_release_of h e then 1 else 0) + releases h es"
  "releases h (xs @ ys) = releases h xs + releases h ys"
  by (simp_all add: releases_def)

lemma acquired_simps [simp]:
  "acquired [] = []"
  "acquired (e # es) = connected_handle e @ acquired es"
  "acquired (xs @ ys) = acquired xs @ acquired ys"
  by (simp_all add: acquired_def)

lemma releases_le_quits: "releases h E \<le> quits h E"
proof (induction E)
  case Nil
  then show ?case by simp
next
  case (Cons e E)
  then show ?case by (cases e) auto
qed

lemma no_quits_no_releases [simp]: "quits h E = 0 \<Longrightarrow> releases h E = 0"
  using releases_le_quits [of h E] by simp

lemma fresh_append: "fresh (w @ evs) = fresh w + length (acquired evs)"
proof (induction evs arbitrary: w rule: rev_induct)
  case Nil
  then show ?case by simp
next
  case (snoc e evs)
  have "length (filter is_connected [e]) = length (connected_handle e)"
    by (cases e rule: connected_handle.cases) auto
  then show ?case
    using snoc [of w] by (simp add: fresh_def)
qed

lemma quit_eq:
  "quit env h w = (if redis_quit env w = None then Inr () else Inl (RedisError (the (redis_quit env w))),
                   w @ [EQuit h (redis_quit env w = None)])"
  by (cases "redis_quit env w") (simp_all add: quit_def)

lemma quit_ignore_eq: "quit_ignore env h w = w @ [EQuit h (redis_quit env w = None)]"
  by (simp add: quit_ignore_def quit_eq)

lemma getRedisClient_eq:
  "getRedisClient env w =
     (if \<not> redis_configured env then (Inl (RedisError ''Redis environment variables are not defined''), w)
      else if redis_connect env w = None then (Inr (fresh w), w @ [EConnect (Some (fresh w))])
      else (Inl (RedisError (the (redis_connect env w))), w @ [EConnect None]))"
  by (cases "redis_connect env w") (auto simp add: getRedisClient_def redis_configured_def)

text \<open>What the cache read can do, with the handle \<open>h = fresh w\<close>.\<close>

lemma read_cache_cases:
  fixes env w
  defines "h \<equiv> fresh w"
  shows "(\<not> redis_configured env \<and> read_cache env w = (Miss None, w))
       \<or> (redis_configured env \<and> redis_connect env w \<noteq> None \<and> read_cache env w = (Miss None, w @ [EConnect None]))
       \<or> (redis_configured env \<and> redis_connect env w = None \<and>
            (let w2 = w @ [EConnect (Some h), EGet h redisKey] in
               (\<exists>m. redis_get env w2 = Inl m \<and>
                    read_cache env w = (Miss None, w2 @ [EQuit h (redis_quit env w2 = None)]))
             \<or> (\<exists>t. redis_get env w2 = Inr t \<and> \<not> truthy_str t \<and> read_cache env w = (Miss (Some h), w2))
             \<or> (\<exists>t. redis_get env w2 = Inr (Some t) \<and> t \<noteq> [] \<and> redis_quit env w2 = None
                    \<and> read_cache env w = (Hit t, w2 @ [EQuit h True]))
             \<or> (\<exists>t. redis_get env w2 = Inr (Some t) \<and> t \<noteq> [] \<and> redis_quit env w2 \<noteq> None
                    \<and> read_cache env w =
                        (Miss None, w2 @ [EQuit h False, EQuit h (redis_quit env (w2 @ [EQuit h False]) = None)]))))"
  unfolding h_def
  by (cases "redis_get env (w @ [EConnect (Some (fresh w)), EGet (fresh w) redisKey])";
      cases "redis_quit env (w @ [EConnect (Some (fresh w)), EGet (fresh w) redisKey])")
     (auto simp add: read_cache_def getRedisClient_eq quit_eq quit_ignore_eq Let_def truthy_str_iff)

lemma generateSign_credentials:
  "(\<exists>sg. generateSign P env w m p b t = Inr sg) \<longleftrightarrow> credentials env"
  "\<not> credentials env \<Longrightarrow> generateSign P env w m p b t = Inl (Error ''Missing Tuya API credentials'')"
  by (auto simp add: generateSign_def credentials_def Let_def)

lemma request_token_cases:
  "(\<not> credentials env \<and> request_token P env w = (Inl (Error ''Missing Tuya API credentials''), w))
   \<or> (credentials env \<and>
        (\<exists>req. let w1 = w @ [EAxiosGet req] in
           (\<exists>m. axios_reply env w1 = Inl m \<and> request_token P env w = (Inl (AxiosError m None), w1))
         \<or> (\<exists>r m. axios_reply env w1 = Inr r \<and> \<not> (200 \<le> status r \<and> status r < 300)
                \<and> request_token P env w = (Inl (AxiosError m (Some r)), w1))
         \<or> (\<exists>r m. axios_reply env w1 = Inr r \<and> 200 \<le> status r \<and> status r < 300
                \<and> \<not> valid_token_envelope (data r)
                \<and> request_token P env w = (Inl (Error m), w1))
         \<or> (\<exists>r. axios_reply env w1 = Inr r \<and> 200 \<le> status r \<and> status r < 300
                \<and> valid_token_envelope (data r)
                \<and> request_token P env w =
                     (Inr (reply_token (data r), computed_ttl P (reply_expire (data r))), w1))))"
proof (cases "credentials env")
  case False
  then show ?thesis
    by (simp add: request_token_def generateSign_credentials)
next
  case True
  then obtain sg where sg: "generateSign P env w ''GET'' tokenPath None JUndefined = Inr sg"
    using generateSign_credentials(1) by blast
  define req where "req = \<lparr> req_method = ''GET'', req_url = baseUrl @ tokenPath,
                     req_headers = [(''client_id'', JStr (clientId sg)), (''sign'', JStr (sign sg)),
                                    (''t'', JStr (timestamp sg)), (''sign_method'', JStr ''HMAC-SHA256'')],
                     req_data = None, req_timeout = 10000 \<rparr>"
  have "let w1 = w @ [EAxiosGet req] in
           (\<exists>m. axios_reply env w1 = Inl m \<and> request_token P env w = (Inl (AxiosError m None), w1))
         \<or> (\<exists>r m. axios_reply env w1 = Inr r \<and> \<not> (200 \<le> status r \<and> status r < 300)
                \<and> request_token P env w = (Inl (AxiosError m (Some r)), w1))
         \<or> (\<exists>r m. axios_reply env w1 = Inr r \<and> 200 \<le> status r \<and> status r < 300
                \<and> \<not> valid_token_envelope (data r)
                \<and> request_token P env w = (Inl (Error m), w1))
         \<or> (\<exists>r. axios_reply env w1 = Inr r \<and> 200 \<le> status r \<and> status r < 300
                \<and> valid_token_envelope (data r)
                \<and> request_token P env w =
                     (Inr (reply_token (data r), computed_ttl P (reply_expire (data r))), w1))"
    by (cases "axios_reply env (w @ [EAxiosGet req])")
       (auto simp add: request_token_def sg axios_def req_def [symmetric] Let_def valid_token_envelope_def
          reply_token_def reply_expire_def computed_ttl_def simp del: js_opt.simps)
  with True show ?thesis by blast
qed

lemma save_token_held:
  "save_token P env (Some h) token ttl w =
     (let w1 = (if js_gt P ttl 0 then w @ [ESet h redisKey token ttl (redis_set env w = None)] else w)
      in w1 @ [EQuit h (redis_quit env w1 = None)])"
  by (simp add: save_token_def quit_ignore_eq Let_def)

lemma save_token_reconnect:
  "save_token P env None token ttl w =
     (if \<not> redis_configured env then w
      else if redis_connect env w \<noteq> None then w @ [EConnect None]
      else save_token P env (Some (fresh w)) token ttl (w @ [EConnect (Some (fresh w))]))"
  by (simp add: save_token_def getRedisClient_eq Let_def)

text \<open>The three ways through \<open>getAccessToken\<close>.\<close>

lemma getAccessToken_cases:
  obtains
    (hit) t w1 where "read_cache env w = (Hit t, w1)"
      and "getAccessToken P env w = (Inr (JStr t), w1)"
  | (fetch_failed) c w1 e w2 where "read_cache env w = (Miss c, w1)"
      and "request_token P env w1 = (Inl e, w2)"
      and "getAccessToken P env w = (Inl e, (case c of Some h \<Rightarrow> w2 @ [EQuit h (redis_quit env w2 = None)] | None \<Rightarrow> w2))"
  | (fetched) c w1 token ttl w2 where "read_cache env w = (Miss c, w1)"
      and "request_token P env w1 = (Inr (token, ttl), w2)"
      and "getAccessToken P env w = (Inr token, save_token P env c token ttl w2)"
proof (cases "read_cache env w")
  case (Pair r w1)
  show ?thesis
  proof (cases r)
    case (Hit t)
    with Pair show ?thesis by (intro hit [of t w1]) (simp_all add: getAccessToken_def)
  next
    case (Miss c)
    show ?thesis
    proof (cases "request_token P env w1")
      case rt: (Pair res w2)
      show ?thesis
      proof (cases res)
        case (Inl e)
        with Pair Miss rt show ?thesis
          by (intro fetch_failed [of c w1 e w2])
             (simp_all add: getAccessToken_def quit_ignore_eq split: option.splits)
      next
        case (Inr tt)
        with Pair Miss rt show ?thesis
          by (cases tt) (intro fetched [of c w1 _ _ w2]; simp add: getAccessToken_def)+
      qed
    qed
  qed
qed

lemma read_cache_summary:
  assumes "read_cache env w = (r, w1)"
  defines "E \<equiv> emitted w w1"
  shows "w1 = w @ E \<and> auth_calls E = 0 \<and> api_calls E = 0 \<and> cache_writes E = 0
           \<and> (\<forall>h'. h' \<noteq> fresh w \<longrightarrow> quits h' E = 0)
           \<and> (case r of
                 Hit t \<Rightarrow> acquired E = [fresh w] \<and> quits (fresh w) E = 1 \<and> releases (fresh w) E = 1
               | Miss (Some h) \<Rightarrow> h = fresh w \<and> acquired E = [fresh w] \<and> (\<forall>h'. quits h' E = 0)
               | Miss None \<Rightarrow>
                   (acquired E = [] \<and> (\<forall>h'. quits h' E = 0))
                   \<or> (acquired E = [fresh w] \<and> 1 \<le> quits (fresh w) E \<and> quits (fresh w) E \<le> 2
                        \<and> releases (fresh w) E \<le> 1
                        \<and> ((\<forall>t. redis_quit env t = None) \<longrightarrow>
                               quits (fresh w) E = 1 \<and> releases (fresh w) E = 1)))"
  using read_cache_cases [of env w] assms(1) unfolding E_def Let_def
  by (elim disjE conjE exE) (auto, blast+)

lemma request_token_summary:
  assumes "request_token P env w = (res, w2)"
  defines "E \<equiv> emitted w w2"
  shows "w2 = w @ E \<and> api_calls E = 0 \<and> cache_writes E = 0 \<and> acquired E = []
           \<and> (\<forall>h. quits h E = 0 \<and> releases h E = 0)
           \<and> auth_calls E = (if credentials env then 1 else 0)"
  using request_token_cases [of env P w] assms(1) unfolding E_def Let_def
  by (elim disjE conjE exE) auto

lemma save_token_held_summary:
  fixes P env h token ttl w
  defines "E \<equiv> emitted w (save_token P env (Some h) token ttl w)"
  shows "save_token P env (Some h) token ttl w = w @ E \<and> auth_calls E = 0 \<and> api_calls E = 0
        \<and> cache_writes E = (if js_gt P ttl 0 then 1 else 0) \<and> acquired E = []
        \<and> quits h E = 1 \<and> releases h E \<le> 1 \<and> (\<forall>h'. h' \<noteq> h \<longrightarrow> quits h' E = 0)
        \<and> ((\<forall>t. redis_quit env t = None) \<longrightarrow> releases h E = 1)
        \<and> (\<forall>e \<in> set E. is_set e \<longrightarrow> (\<exists>ok. e = ESet h redisKey token ttl ok) \<and> js_gt P ttl 0)"
  unfolding E_def by (simp add: save_token_held Let_def)

lemma save_token_summary:
  fixes P env c token ttl w
  defines "E \<equiv> emitted w (save_token P env c token ttl w)"
  shows "save_token P env c token ttl w = w @ E \<and> auth_calls E = 0 \<and> api_calls E = 0
        \<and> cache_writes E \<le> 1 \<and> (\<not> js_gt P ttl 0 \<longrightarrow> cache_writes E = 0)
        \<and> (\<forall>e \<in> set E. is_set e \<longrightarrow> (\<exists>h ok. e = ESet h redisKey token ttl ok) \<and> js_gt P ttl 0)
        \<and> (case c of
              Some h \<Rightarrow> acquired E = [] \<and> quits h E = 1 \<and> releases h E \<le> 1
                        \<and> (\<forall>h'. h' \<noteq> h \<longrightarrow> quits h' E = 0)
                        \<and> ((\<forall>t. redis_quit env t = None) \<longrightarrow> releases h E = 1)
            | None \<Rightarrow>
                (acquired E = [] \<and> (\<forall>h. quits h E = 0))
                \<or> (acquired E = [fresh w] \<and> quits (fresh w) E = 1 \<and> releases (fresh w) E \<le> 1
                     \<and> (\<forall>h'. h' \<noteq> fresh w \<longrightarrow> quits h' E = 0)
                     \<and> ((\<forall>t. redis_quit env t = None) \<longrightarrow> releases (fresh w) E = 1)))"
proof (cases c)
  case (Some h)
  then show ?thesis
    unfolding E_def by (simp add: save_token_held Let_def)
next
  case None
  then show ?thesis
    unfolding E_def by (simp add: save_token_reconnect save_token_held Let_def)
qed

lemma read_miss_summary:
  assumes "read_cache env w = (Miss c, w1)"
  shows "\<exists>E. w1 = w @ E \<and> auth_calls E = 0 \<and> api_calls E = 0 \<and> cache_writes E = 0
           \<and> (\<forall>h'. h' \<noteq> fresh w \<longrightarrow> quits h' E = 0)
           \<and> (case c of
                 Some h \<Rightarrow> h = fresh w \<and> acquired E = [fresh w] \<and> (\<forall>h'. quits h' E = 0)
               | None \<Rightarrow>
                   (acquired E = [] \<and> (\<forall>h'. quits h' E = 0))
                   \<or> (acquired E = [fresh w] \<and> 1 \<le> quits (fresh w) E \<and> quits (fresh w) E \<le> 2
                        \<and> releases (fresh w) E \<le> 1
                        \<and> ((\<forall>t. redis_quit env t = None) \<longrightarrow>
                               quits (fresh w) E = 1 \<and> releases (fresh w) E = 1)))"
  using read_cache_summary [OF assms] by (intro exI [of _ "emitted w w1"]) simp

lemma request_token_trace:
  assumes "request_token P env w = (res, w2)"
  shows "\<exists>E. w2 = w @ E \<and> api_calls E = 0 \<and> cache_writes E = 0 \<and> acquired E = []
           \<and> (\<forall>h. quits h E = 0 \<and> releases h E = 0)
           \<and> auth_calls E = (if credentials env then 1 else 0)"
  using request_token_summary [OF assms] by (intro exI [of _ "emitted w w2"]) simp

lemma save_token_trace:
  "\<exists>E. save_token P env c token ttl w = w @ E \<and> auth_calls E = 0 \<and> api_calls E = 0
        \<and> cache_writes E \<le> 1 \<and> (\<not> js_gt P ttl 0 \<longrightarrow> cache_writes E = 0)
        \<and> (\<forall>e \<in> set E. is_set e \<longrightarrow> (\<exists>h ok. e = ESet h redisKey token ttl ok) \<and> js_gt P ttl 0)
        \<and> (case c of
              Some h \<Rightarrow> acquired E = [] \<and> quits h E = 1 \<and> releases h E \<le> 1
                        \<and> (\<forall>h'. h' \<noteq> h \<longrightarrow> quits h' E = 0)
                        \<and> ((\<forall>t. redis_quit env t = None) \<longrightarrow> releases h E = 1)
            | None \<Rightarrow>
                (acquired E = [] \<and> (\<forall>h. quits h E = 0))
                \<or> (acquired E = [fresh w] \<and> quits (fresh w) E = 1 \<and> releases (fresh w) E \<le> 1
                     \<and> (\<forall>h'. h' \<noteq> fresh w \<longrightarrow> quits h' E = 0)
                     \<and> ((\<forall>t. redis_quit env t = None) \<longrightarrow> releases (fresh w) E = 1)))"
  using save_token_summary [of P env c token ttl w]
  by (intro exI [of _ "emitted w (save_token P env c token ttl w)"]) simp

lemma getAccessToken_summary:
  "\<exists>E. snd (getAccessToken P env w) = w @ E \<and> api_calls E = 0
        \<and> auth_calls E \<le> 1 \<and> cache_writes E \<le> 1 \<and> handles_ok env (fresh w) E"
proof (cases rule: getAccessToken_cases [of env w P])
  case (hit t w1)
  from read_cache_summary [OF hit(1)] hit(2) show ?thesis
    by (intro exI [of _ "emitted w w1"]) (simp add: handles_ok_def)
next
  case (fetch_failed c w1 e w2)
  from read_miss_summary [OF fetch_failed(1)] obtain E1 where
    E1: "w1 = w @ E1 \<and> auth_calls E1 = 0 \<and> api_calls E1 = 0 \<and> cache_writes E1 = 0
           \<and> (\<forall>h'. h' \<noteq> fresh w \<longrightarrow> quits h' E1 = 0)
           \<and> (case c of
                 Some h \<Rightarrow> h = fresh w \<and> acquired E1 = [fresh w] \<and> (\<forall>h'. quits h' E1 = 0)
               | None \<Rightarrow>
                   (acquired E1 = [] \<and> (\<forall>h'. quits h' E1 = 0))
                   \<or> (acquired E1 = [fresh w] \<and> 1 \<le> quits (fresh w) E1 \<and> quits (fresh w) E1 \<le> 2
                        \<and> releases (fresh w) E1 \<le> 1
                        \<and> ((\<forall>t. redis_quit env t = None) \<longrightarrow>
                               quits (fresh w) E1 = 1 \<and> releases (fresh w) E1 = 1)))"
    by blast
  from request_token_trace [OF fetch_failed(2)] obtain E2 where
    E2: "w2 = w1 @ E2 \<and> api_calls E2 = 0 \<and> cache_writes E2 = 0 \<and> acquired E2 = []
           \<and> (\<forall>h. quits h E2 = 0 \<and> releases h E2 = 0)
           \<and> auth_calls E2 = (if credentials env then 1 else 0)"
    by blast
  show ?thesis
  proof (cases c)
    case None
    with fetch_failed(3) E1 E2 show ?thesis
      by (intro exI [of _ "E1 @ E2"]) (auto simp add: handles_ok_def)
  next
    case (Some h)
    with fetch_failed(3) E1 E2 show ?thesis
      by (intro exI [of _ "E1 @ E2 @ [EQuit h (redis_quit env w2 = None)]"])
         (auto simp add: handles_ok_def)
  qed
next
  case (fetched c w1 token ttl w2)
  from read_miss_summary [OF fetched(1)] obtain E1 where
    E1: "w1 = w @ E1 \<and> auth_calls E1 = 0 \<and> api_calls E1 = 0 \<and> cache_writes E1 = 0
           \<and> (\<forall>h'. h' \<noteq> fresh w \<longrightarrow> quits h' E1 = 0)
           \<and> (case c of
                 Some h \<Rightarrow> h = fresh w \<and> acquired E1 = [fresh w] \<and> (\<forall>h'. quits h' E1 = 0)
               | None \<Rightarrow>
                   (acquired E1 = [] \<and> (\<forall>h'. quits h' E1 = 0))
                   \<or> (acquired E1 = [fresh w] \<and> 1 \<le> quits (fresh w) E1 \<and> quits (fresh w) E1 \<le> 2
                        \<and> releases (fresh w) E1 \<le> 1
                        \<and> ((\<forall>t. redis_quit env t = None) \<longrightarrow>
                               quits (fresh w) E1 = 1 \<and> releases (fresh w) E1 = 1)))"
    by blast
  from request_token_trace [OF fetched(2)] obtain E2 where
    E2: "w2 = w1 @ E2 \<and> api_calls E2 = 0 \<and> cache_writes E2 = 0 \<and> acquired E2 = []
           \<and> (\<forall>h. quits h E2 = 0 \<and> releases h E2 = 0)
           \<and> auth_calls E2 = (if credentials env then 1 else 0)"
    by blast
  have f2: "fresh w2 = fresh w + length (acquired E1)"
    using E1 E2 by (simp add: fresh_append)
  from save_token_trace [of P env c token ttl w2] obtain E3 where
    E3: "save_token P env c token ttl w2 = w2 @ E3 \<and> auth_calls E3 = 0 \<and> api_calls E3 = 0
        \<and> cache_writes E3 \<le> 1 \<and> (\<not> js_gt P ttl 0 \<longrightarrow> cache_writes E3 = 0)
        \<and> (\<forall>e \<in> set E3. is_set e \<longrightarrow> (\<exists>h ok. e = ESet h redisKey token ttl ok) \<and> js_gt P ttl 0)
        \<and> (case c of
              Some h \<Rightarrow> acquired E3 = [] \<and> quits h E3 = 1 \<and> releases h E3 \<le> 1
                        \<and> (\<forall>h'. h' \<noteq> h \<longrightarrow> quits h' E3 = 0)
                        \<and> ((\<forall>t. redis_quit env t = None) \<longrightarrow> releases h E3 = 1)
            | None \<Rightarrow>
                (acquired E3 = [] \<and> (\<forall>h. quits h E3 = 0))
                \<or> (acquired E3 = [fresh w2] \<and> quits (fresh w2) E3 = 1 \<and> releases (fresh w2) E3 \<le> 1
                     \<and> (\<forall>h'. h' \<noteq> fresh w2 \<longrightarrow> quits h' E3 = 0)
                     \<and> ((\<forall>t. redis_quit env t = None) \<longrightarrow> releases (fresh w2) E3 = 1)))"
    by blast
  show ?thesis
  proof (cases c)
    case None
    with fetched(3) E1 E2 E3 f2 show ?thesis
      by (intro exI [of _ "E1 @ E2 @ E3"]) (auto simp add: handles_ok_def)
  next
    case (Some h)
    with fetched(3) E1 E2 E3 f2 show ?thesis
      by (intro exI [of _ "E1 @ E2 @ E3"]) (auto simp add: handles_ok_def)
  qed
qed

section \<open>The result of getAccessToken\<close>

lemma emitted_Nil [simp]: "emitted [] w = w"
  by (simp add: emitted_def)

lemma cache_writes_zero_iff: "cache_writes E = 0 \<longleftrightarrow> (\<forall>e \<in> set E. \<not> is_set e)"
  by (simp add: cache_writes_def filter_empty_conv)

text \<open>When the cache read returns a token.\<close>

lemma read_cache_hit_iff:
  "read_cache env w = (Hit t, w1) \<longleftrightarrow>
     redis_configured env \<and> redis_connect env w = None
     \<and> redis_get env (w @ [EConnect (Some (fresh w)), EGet (fresh w) redisKey]) = Inr (Some t) \<and> t \<noteq> []
     \<and> redis_quit env (w @ [EConnect (Some (fresh w)), EGet (fresh w) redisKey]) = None
     \<and> w1 = w @ [EConnect (Some (fresh w)), EGet (fresh w) redisKey, EQuit (fresh w) True]"
  using read_cache_cases [of env w] unfolding Let_def
  by (elim disjE conjE exE) auto

text \<open>What \<open>getAccessToken\<close> returns, in terms of the cache read and the vendor's answer.\<close>

lemma getAccessToken_result:
  "(\<exists>t w1. read_cache env w = (Hit t, w1) \<and> getAccessToken P env w = (Inr (JStr t), w1))
   \<or> (\<exists>c w1. read_cache env w = (Miss c, w1) \<and> \<not> credentials env
         \<and> fst (getAccessToken P env w) = Inl (Error ''Missing Tuya API credentials''))
   \<or> (\<exists>c w1 req. read_cache env w = (Miss c, w1) \<and> credentials env
         \<and> ((\<exists>m. axios_reply env (w1 @ [EAxiosGet req]) = Inl m
                 \<and> fst (getAccessToken P env w) = Inl (AxiosError m None))
            \<or> (\<exists>r m. axios_reply env (w1 @ [EAxiosGet req]) = Inr r
                 \<and> \<not> (200 \<le> status r \<and> status r < 300)
                 \<and> fst (getAccessToken P env w) = Inl (AxiosError m (Some r)))
            \<or> (\<exists>r m. axios_reply env (w1 @ [EAxiosGet req]) = Inr r
                 \<and> 200 \<le> status r \<and> status r < 300 \<and> \<not> valid_token_envelope (data r)
                 \<and> fst (getAccessToken P env w) = Inl (Error m))
            \<or> (\<exists>r. axios_reply env (w1 @ [EAxiosGet req]) = Inr r
                 \<and> 200 \<le> status r \<and> status r < 300 \<and> valid_token_envelope (data r)
                 \<and> getAccessToken P env w =
                     (Inr (reply_token (data r)),
                      save_token P env c (reply_token (data r)) (computed_ttl P (reply_expire (data r)))
                        (w1 @ [EAxiosGet req])))))"
proof (cases rule: getAccessToken_cases [of env w P])
  case (hit t w1)
  then show ?thesis by blast
next
  case (fetch_failed c w1 e w2)
  with request_token_cases [of env P w1] show ?thesis
    unfolding Let_def by (elim disjE conjE exE) (simp_all, blast+)
next
  case (fetched c w1 token ttl w2)
  with request_token_cases [of env P w1] show ?thesis
    unfolding Let_def by (elim disjE conjE exE) (simp_all, blast+)
qed


lemma getAccessToken_writes:
  "\<forall>e \<in> set (emitted w (snd (getAccessToken P env w))). is_set e \<longrightarrow>
      (\<exists>h token ttl ok. e = ESet h redisKey token ttl ok \<and> js_gt P ttl 0
          \<and> fst (getAccessToken P env w) = Inr token)"
proof (cases rule: getAccessToken_cases [of env w P])
  case (hit t w1)
  from read_cache_summary [OF hit(1)] have "cache_writes (emitted w w1) = 0" by simp
  with hit(2) show ?thesis by (simp add: cache_writes_zero_iff)
next
  case (fetch_failed c w1 e w2)
  from read_miss_summary [OF fetch_failed(1)] obtain E1 where
    E1: "w1 = w @ E1" "cache_writes E1 = 0" by blast
  from request_token_trace [OF fetch_failed(2)] obtain E2 where
    E2: "w2 = w1 @ E2" "cache_writes E2 = 0" by blast
  show ?thesis
    using fetch_failed(3) E1 E2 by (cases c) (auto simp add: cache_writes_zero_iff)
next
  case (fetched c w1 token ttl w2)
  from read_miss_summary [OF fetched(1)] obtain E1 where
    E1: "w1 = w @ E1" "cache_writes E1 = 0" by blast
  from request_token_trace [OF fetched(2)] obtain E2 where
    E2: "w2 = w1 @ E2" "cache_writes E2 = 0" by blast
  from save_token_trace [of P env c token ttl w2] obtain E3 where
    E3: "save_token P env c token ttl w2 = w2 @ E3"
      "\<forall>e \<in> set E3. is_set e \<longrightarrow> (\<exists>h ok. e = ESet h redisKey token ttl ok) \<and> js_gt P ttl 0"
    by blast
  have "emitted w (snd (getAccessToken P env w)) = E1 @ E2 @ E3"
    using fetched(3) E1 E2 E3 by simp
  then show ?thesis
    using fetched(3) E1(2) E2(2) E3(2) by (auto simp add: cache_writes_zero_iff)
qed

section \<open>Vendor calls of getAccessToken\<close>

text \<open>
  On every path but one the code makes no call to the token endpoint after a cache read
  that returned a token: when the read returns a non-empty token and the \<^verbatim>\<open>quit\<close>
  that follows resolves, \<open>getAccessToken\<close> returns that token right after the release,
  with no call to the token endpoint and no cache write. In every other case it makes
  exactly one call to the token endpoint when the credentials are configured, none when
  they are missing, and at most one cache write. The other cases are: no connection, a
  rejected or empty read, and a token read followed by a rejected \<^verbatim>\<open>quit\<close>.
\<close>

lemma getAccessToken_vendor_calls:
  fixes P env w
  defines "w2 \<equiv> w @ [EConnect (Some (fresh w)), EGet (fresh w) redisKey]"
    and "E \<equiv> emitted w (snd (getAccessToken P env w))"
  shows "(redis_configured env \<and> redis_connect env w = None
            \<and> redis_get env w2 = Inr (Some t) \<and> t \<noteq> [] \<and> redis_quit env w2 = None
          \<longrightarrow> getAccessToken P env w = (Inr (JStr t), w2 @ [EQuit (fresh w) True])
              \<and> auth_calls E = 0 \<and> cache_writes E = 0)
       \<and> (\<not> (\<exists>t. redis_configured env \<and> redis_connect env w = None
                  \<and> redis_get env w2 = Inr (Some t) \<and> t \<noteq> [] \<and> redis_quit env w2 = None)
          \<longrightarrow> auth_calls E = (if credentials env then 1 else 0) \<and> cache_writes E \<le> 1)"
proof -
  have 1: "getAccessToken P env w = (Inr (JStr t), w2 @ [EQuit (fresh w) True])
              \<and> auth_calls E = 0 \<and> cache_writes E = 0"
    if hit: "redis_configured env \<and> redis_connect env w = None
            \<and> redis_get env w2 = Inr (Some t) \<and> t \<noteq> [] \<and> redis_quit env w2 = None"
  proof -
    from hit have r: "read_cache env w = (Hit t, w2 @ [EQuit (fresh w) True])"
      using read_cache_hit_iff [of env w t "w2 @ [EQuit (fresh w) True]"] by (simp add: w2_def)
    then have g: "getAccessToken P env w = (Inr (JStr t), w2 @ [EQuit (fresh w) True])"
      by (simp add: getAccessToken_def)
    then show ?thesis
      by (simp add: E_def w2_def)
  qed
  have 2: "auth_calls E = (if credentials env then 1 else 0) \<and> cache_writes E \<le> 1"
    if miss: "\<not> (\<exists>t. redis_configured env \<and> redis_connect env w = None
                  \<and> redis_get env w2 = Inr (Some t) \<and> t \<noteq> [] \<and> redis_quit env w2 = None)"
  proof -
    from miss have nohit: "read_cache env w \<noteq> (Hit t, w1)" for t w1
      using read_cache_hit_iff [of env w t w1] by (auto simp add: w2_def)
    show ?thesis
    proof (cases rule: getAccessToken_cases [of env w P])
      case (hit t w1)
      with nohit show ?thesis by blast
    next
      case (fetch_failed c w1 e w3)
      from read_miss_summary [OF fetch_failed(1)] obtain E1 where
        E1: "w1 = w @ E1" "cache_writes E1 = 0" "auth_calls E1 = 0" by blast
      from request_token_trace [OF fetch_failed(2)] obtain E2 where
        E2: "w3 = w1 @ E2" "cache_writes E2 = 0" "auth_calls E2 = (if credentials env then 1 else 0)"
        by blast
      show ?thesis
        using fetch_failed(3) E1 E2 by (cases c) (auto simp add: E_def)
    next
      case (fetched c w1 token ttl w3)
      from read_miss_summary [OF fetched(1)] obtain E1 where
        E1: "w1 = w @ E1" "cache_writes E1 = 0" "auth_calls E1 = 0" by blast
      from request_token_trace [OF fetched(2)] obtain E2 where
        E2: "w3 = w1 @ E2" "cache_writes E2 = 0" "auth_calls E2 = (if credentials env then 1 else 0)"
        by blast
      from save_token_trace [of P env c token ttl w3] obtain E3 where
        E3: "save_token P env c token ttl w3 = w3 @ E3" "auth_calls E3 = 0" "cache_writes E3 \<le> 1"
        by blast
      show ?thesis
        using fetched(3) E1 E2 E3 by (auto simp add: E_def)
    qed
  qed
  from 1 2 show ?thesis by blast
qed

lemma getAccessToken_vendor_calls_test:
  "getAccessToken test_platform env_cached [] =
     (Inr (JStr ''cached''), [EConnect (Some 0), EGet 0 ''tuya_token'', EQuit 0 True])
   \<and> auth_calls (emitted [] (snd (getAccessToken test_platform env_cached []))) = 0
   \<and> auth_calls (emitted [] (snd (getAccessToken test_platform test_env []))) = 1"
  using getAccessToken_vendor_calls [of env_cached "[]" "''cached''" test_platform]
    getAccessToken_vendor_calls [of test_env "[]" "''cached''" test_platform]
  by (simp add: env_cached_def test_env_def redis_configured_def credentials_def fresh_def redisKey_def)

text \<open>
  Claim C9. A cache read that returns a token is to be answered with that token and
  without any call to the token endpoint. The code breaks this when the \<^verbatim>\<open>quit\<close> on
  line 43 rejects: this \<^verbatim>\<open>quit\<close>, alone among those of the module, has no \<^verbatim>\<open>try\<close> of its own, so
  the rejection reaches the \<^verbatim>\<open>catch\<close> of the read block, which handles it as a read
  error. The token \<open>cached\<close> that was read is dropped, the token endpoint is called
  once, and the vendor's token \<open>tok\<close> is returned. With the same cache and a
  \<^verbatim>\<open>quit\<close> that resolves, the cached token is returned with no vendor call.
\<close>

theorem cached_token_dropped_after_failed_quit:
  "redis_get env_cached_quit_fails [EConnect (Some 0), EGet 0 ''tuya_token''] = Inr (Some ''cached'')
   \<and> auth_calls (snd (getAccessToken test_platform env_cached_quit_fails [])) = 1
   \<and> fst (getAccessToken test_platform env_cached_quit_fails []) = Inr (JStr ''tok'')
   \<and> getAccessToken test_platform env_cached [] =
       (Inr (JStr ''cached''), [EConnect (Some 0), EGet 0 ''tuya_token'', EQuit 0 True])"
  by (simp add: env_cached_quit_fails_def env_cached_def eval_defs)

section \<open>getAccessToken without the cache\<close>




section \<open>The TTL of the cached token\<close>

text \<open>
  Claim C2, amended. Every cache write of \<open>getAccessToken\<close> is under the key
  \<open>tuya_token\<close>, stores the token that the call returns, and has a TTL that is
  positive. When the cache read did not return a token and the vendor answers the token
  request with a valid envelope, the token of that envelope is returned whether or not it
  is written; the TTL is the expiry minus 60 when the expiry exceeds 60 and the expiry
  itself otherwise; nothing is written when that TTL is not positive; and the token is
  written once when the TTL is positive and a cache connection is held or can be made.
  For a numeric expiry \<open>x\<close> the TTL is positive exactly when \<open>0 < x\<close>: an expiry
  of at most 60 seconds is cached, with the expiry itself as TTL, unless it is zero or
  negative.
\<close>

theorem getAccessToken_ttl:
  fixes P env w
  defines "E \<equiv> emitted w (snd (getAccessToken P env w))"
  shows "(\<forall>e \<in> set E. is_set e \<longrightarrow>
            (\<exists>h token ttl ok. e = ESet h redisKey token ttl ok \<and> js_gt P ttl 0
                \<and> fst (getAccessToken P env w) = Inr token))
       \<and> (read_cache env w = (Miss c, w1) \<and> credentials env
            \<and> (\<forall>req. axios_reply env (w1 @ [EAxiosGet req]) = Inr r)
            \<and> 200 \<le> status r \<and> status r < 300 \<and> valid_token_envelope (data r)
          \<longrightarrow> fst (getAccessToken P env w) = Inr (reply_token (data r))
            \<and> (\<forall>e \<in> set E. is_set e \<longrightarrow>
                  (\<exists>h ok. e = ESet h redisKey (reply_token (data r))
                                (computed_ttl P (reply_expire (data r))) ok))
            \<and> (\<not> js_gt P (computed_ttl P (reply_expire (data r))) 0 \<longrightarrow> cache_writes E = 0)
            \<and> (js_gt P (computed_ttl P (reply_expire (data r))) 0
                 \<and> (c \<noteq> None \<or> redis_configured env \<and> (\<forall>t. redis_connect env t = None))
                \<longrightarrow> cache_writes E = 1)
            \<and> (\<forall>x. reply_expire (data r) = JNum (Fin x) \<longrightarrow>
                  computed_ttl P (reply_expire (data r)) = JNum (Fin (if 60 < x then x - 60 else x))
                  \<and> (js_gt P (computed_ttl P (reply_expire (data r))) 0 \<longleftrightarrow> 0 < x)))"
proof (intro conjI impI; (elim conjE)?)
  show "\<forall>e \<in> set E. is_set e \<longrightarrow>
            (\<exists>h token ttl ok. e = ESet h redisKey token ttl ok \<and> js_gt P ttl 0
                \<and> fst (getAccessToken P env w) = Inr token)"
    unfolding E_def by (rule getAccessToken_writes)
next
  define token where "token = reply_token (data r)"
  define ttl where "ttl = computed_ttl P (reply_expire (data r))"
  assume rd: "read_cache env w = (Miss c, w1)" and cred: "credentials env"
    and reply: "\<forall>req. axios_reply env (w1 @ [EAxiosGet req]) = Inr r"
    and st: "200 \<le> status r" "status r < 300" and valid: "valid_token_envelope (data r)"
  from getAccessToken_result [of env w P] rd cred reply st valid
  obtain req where g: "getAccessToken P env w = (Inr token, save_token P env c token ttl (w1 @ [EAxiosGet req]))"
    unfolding token_def ttl_def by (elim disjE conjE exE) auto
  from read_miss_summary [OF rd] obtain E1 where E1: "w1 = w @ E1" "cache_writes E1 = 0" by blast
  from save_token_trace [of P env c token ttl "w1 @ [EAxiosGet req]"] obtain E3 where
    E3: "save_token P env c token ttl (w1 @ [EAxiosGet req]) = (w1 @ [EAxiosGet req]) @ E3"
      "cache_writes E3 \<le> 1" "\<not> js_gt P ttl 0 \<longrightarrow> cache_writes E3 = 0"
      "\<forall>e \<in> set E3. is_set e \<longrightarrow> (\<exists>h ok. e = ESet h redisKey token ttl ok) \<and> js_gt P ttl 0"
    by blast
  have E: "E = E1 @ [EAxiosGet req] @ E3"
    using g E1 E3 by (simp add: E_def)
  have full: "cache_writes E3 = 1"
    if "js_gt P ttl 0" and "c \<noteq> None \<or> redis_configured env \<and> (\<forall>t. redis_connect env t = None)"
    using that E3(1) by (cases c) (auto simp add: save_token_reconnect save_token_held Let_def)
  show "fst (getAccessToken P env w) = Inr (reply_token (data r))"
    using g by (simp add: token_def)
  show "\<forall>e \<in> set E. is_set e \<longrightarrow>
                  (\<exists>h ok. e = ESet h redisKey (reply_token (data r))
                                (computed_ttl P (reply_expire (data r))) ok)"
    using E E1(2) E3(4) by (auto simp add: cache_writes_zero_iff token_def ttl_def)
  show "cache_writes E = 0" if "\<not> js_gt P (computed_ttl P (reply_expire (data r))) 0"
    using that E E1(2) E3(3) by (simp add: ttl_def)
  show "cache_writes E = 1"
    if "js_gt P (computed_ttl P (reply_expire (data r))) 0"
      and "c \<noteq> None \<or> redis_configured env \<and> (\<forall>t. redis_connect env t = None)"
    using that E E1(2) full by (simp add: ttl_def)
  show "\<forall>x. reply_expire (data r) = JNum (Fin x) \<longrightarrow>
                  computed_ttl P (reply_expire (data r)) = JNum (Fin (if 60 < x then x - 60 else x))
                  \<and> (js_gt P (computed_ttl P (reply_expire (data r))) 0 \<longleftrightarrow> 0 < x)"
    by (auto simp add: computed_ttl_def js_gt_def js_sub_def ToNumber_def)
qed

text \<open>
  Claim C2, as stated, fails: with a remaining lifetime of 30 seconds, which is within
  the margin of 60, the token is written to the cache, with TTL 30.
\<close>

theorem short_lived_token_counterexample:
  "reply_expire (token_envelope 30) = JNum (Fin 30) \<and> (30::rat) \<le> 60
   \<and> filter is_set (snd (getAccessToken test_platform env_short_lived []))
       = [ESet 0 ''tuya_token'' (JStr ''tok'') (JNum (Fin 30)) True]"
  by (simp add: env_short_lived_def reply_expire_def eval_defs)

theorem getAccessToken_ttl_witness:
  "fst (getAccessToken test_platform env_short_lived []) = Inr (JStr ''tok'')
   \<and> cache_writes (emitted [] (snd (getAccessToken test_platform env_short_lived []))) = 1
   \<and> computed_ttl test_platform (JNum (Fin 30)) = JNum (Fin 30)"
proof -
  let ?r = "\<lparr> status = 200, data = token_envelope 30 \<rparr>"
  have rd: "read_cache env_short_lived [] = (Miss (Some 0), [EConnect (Some 0), EGet 0 redisKey])"
    by (simp add: read_cache_def getRedisClient_def env_short_lived_def test_env_def fresh_def)
  have hyp: "read_cache env_short_lived [] = (Miss (Some 0), [EConnect (Some 0), EGet 0 redisKey])
      \<and> credentials env_short_lived
      \<and> (\<forall>req. axios_reply env_short_lived ([EConnect (Some 0), EGet 0 redisKey] @ [EAxiosGet req]) = Inr ?r)
      \<and> 200 \<le> status ?r \<and> status ?r < 300 \<and> valid_token_envelope (data ?r)"
    using rd
    by (simp add: credentials_def env_short_lived_def test_env_def vendor_def
        valid_token_envelope_def token_envelope_def)
  have ex: "reply_expire (data ?r) = JNum (Fin 30)" "reply_token (data ?r) = JStr ''tok''"
    by (simp_all add: reply_expire_def reply_token_def token_envelope_def)
  from getAccessToken_ttl [where env = env_short_lived and w = "[]" and P = test_platform
      and c = "Some 0" and ?w1.0 = "[EConnect (Some 0), EGet 0 redisKey]" and r = ?r] hyp ex
  show ?thesis
    by (auto simp del: js_opt.simps)
qed

section \<open>The traces of makeCustomRequest\<close>

lemma delete_cached_token_eq:
  "delete_cached_token env w =
     (if \<not> redis_configured env then w
      else if redis_connect env w \<noteq> None then w @ [EConnect None]
      else w @ [EConnect (Some (fresh w)),
                EDel (fresh w) ''tuya_token'' (redis_del env (w @ [EConnect (Some (fresh w))]) = None),
                EQuit (fresh w)
                  (redis_quit env (w @ [EConnect (Some (fresh w)),
                     EDel (fresh w) ''tuya_token'' (redis_del env (w @ [EConnect (Some (fresh w))]) = None)])
                   = None)])"
  by (simp add: delete_cached_token_def getRedisClient_eq quit_ignore_eq)

lemma delete_cached_token_summary:
  "\<exists>E. delete_cached_token env w = w @ E \<and> api_calls E = 0 \<and> auth_calls E = 0
        \<and> cache_writes E = 0 \<and> handles_ok env (fresh w) E"
  by (intro exI [of _ "emitted w (delete_cached_token env w)"])
     (simp add: delete_cached_token_eq handles_ok_def)

lemma deletes_simps [simp]:
  "deletes [] = 0"
  "deletes (e # es) = (if is_del e then 1 else 0) + deletes es"
  "deletes (xs @ ys) = deletes xs + deletes ys"
  by (simp_all add: deletes_def)

lemma delete_cached_token_spec:
  "delete_cached_token env w = w @ best_effort_delete env w"
  by (simp add: delete_cached_token_eq best_effort_delete_def)

lemma deletes_best_effort:
  "deletes (best_effort_delete env w) = (if redis_configured env \<and> redis_connect env w = None then 1 else 0)"
  "api_calls (best_effort_delete env w) = 0"
  by (simp_all add: best_effort_delete_def)

lemma read_cache_no_delete:
  assumes "read_cache env w = (r, w1)"
  shows "deletes (emitted w w1) = 0"
  using read_cache_cases [of env w] assms unfolding Let_def
  by (elim disjE conjE exE) auto

lemma request_token_no_delete:
  assumes "request_token P env w = (res, w2)"
  shows "deletes (emitted w w2) = 0"
  using request_token_cases [of env P w] assms unfolding Let_def
  by (elim disjE conjE exE) auto

lemma save_token_no_delete:
  "deletes (emitted w (save_token P env c token ttl w)) = 0"
  by (cases c) (simp_all add: save_token_reconnect save_token_held Let_def)

lemma getAccessToken_no_delete:
  "\<exists>E. snd (getAccessToken P env w) = w @ E \<and> api_calls E = 0 \<and> deletes E = 0"
proof (cases rule: getAccessToken_cases [of env w P])
  case (hit t w1)
  from read_cache_summary [OF hit(1)] read_cache_no_delete [OF hit(1)] hit(2) show ?thesis
    by (intro exI [of _ "emitted w w1"]) simp
next
  case (fetch_failed c w1 e w2)
  from read_cache_summary [OF fetch_failed(1)] read_cache_no_delete [OF fetch_failed(1)]
  obtain E1 where E1: "w1 = w @ E1" "api_calls E1 = 0" "deletes E1 = 0" by blast
  from request_token_summary [OF fetch_failed(2)] request_token_no_delete [OF fetch_failed(2)]
  obtain E2 where E2: "w2 = w1 @ E2" "api_calls E2 = 0" "deletes E2 = 0" by blast
  show ?thesis
  proof (cases c)
    case None
    with fetch_failed(3) E1 E2 show ?thesis by (intro exI [of _ "E1 @ E2"]) simp
  next
    case (Some h)
    with fetch_failed(3) E1 E2 show ?thesis
      by (intro exI [of _ "E1 @ E2 @ [EQuit h (redis_quit env w2 = None)]"]) simp
  qed
next
  case (fetched c w1 token ttl w2)
  from read_cache_summary [OF fetched(1)] read_cache_no_delete [OF fetched(1)]
  obtain E1 where E1: "w1 = w @ E1" "api_calls E1 = 0" "deletes E1 = 0" by blast
  from request_token_summary [OF fetched(2)] request_token_no_delete [OF fetched(2)]
  obtain E2 where E2: "w2 = w1 @ E2" "api_calls E2 = 0" "deletes E2 = 0" by blast
  from save_token_summary [of P env c token ttl w2] save_token_no_delete [of w2 P env c token ttl]
  obtain E3 where E3: "save_token P env c token ttl w2 = w2 @ E3" "api_calls E3 = 0" "deletes E3 = 0"
    by blast
  from fetched(3) E1 E2 E3 show ?thesis
    by (intro exI [of _ "E1 @ E2 @ E3"]) simp
qed

lemma handles_ok_append:
  assumes "handles_ok env (fresh w) E1" and "handles_ok env (fresh (w @ E1)) E2"
  shows "handles_ok env (fresh w) (E1 @ E2)"
proof -
  have b1: "h \<in> set (acquired E1) \<Longrightarrow> h < fresh w + length (acquired E1)" for h
    using assms(1) by (simp add: handles_ok_def)
  have b2: "h \<in> set (acquired E2) \<Longrightarrow> fresh w + length (acquired E1) \<le> h" for h
    using assms(2) by (simp add: handles_ok_def fresh_append)
  have d: "h \<in> set (acquired E1) \<Longrightarrow> h \<notin> set (acquired E2)" for h
    using b1 [of h] b2 [of h] by auto
  have q1: "h \<in> set (acquired E1) \<Longrightarrow> quits h E2 = 0" for h
    using d assms(2) by (simp add: handles_ok_def)
  have q2: "h \<in> set (acquired E2) \<Longrightarrow> quits h E1 = 0" for h
    using d assms(1) by (auto simp add: handles_ok_def)
  show ?thesis
    unfolding handles_ok_def
  proof (intro conjI ballI allI impI)
    fix h assume "h \<notin> set (acquired (E1 @ E2))"
    then show "quits h (E1 @ E2) = 0"
      using assms by (simp add: handles_ok_def)
  next
    fix h assume h: "h \<in> set (acquired (E1 @ E2))"
    then consider "h \<in> set (acquired E1)" | "h \<in> set (acquired E2)" by auto
    then have "fresh w \<le> h \<and> h < fresh w + length (acquired (E1 @ E2))
        \<and> 1 \<le> quits h (E1 @ E2) \<and> quits h (E1 @ E2) \<le> 2 \<and> releases h (E1 @ E2) \<le> 1
        \<and> ((\<forall>t. redis_quit env t = None) \<longrightarrow> quits h (E1 @ E2) = 1 \<and> releases h (E1 @ E2) = 1)"
    proof cases
      case 1
      with assms(1) q1 [OF 1] show ?thesis
        by (auto simp add: handles_ok_def)
    next
      case 2
      with assms(2) q2 [OF 2] show ?thesis
        by (auto simp add: handles_ok_def fresh_append)
    qed
    then show "fresh w \<le> h" "h < fresh w + length (acquired (E1 @ E2))"
      "1 \<le> quits h (E1 @ E2)" "quits h (E1 @ E2) \<le> 2" "releases h (E1 @ E2) \<le> 1"
      by blast+
    from \<open>fresh w \<le> h \<and> _\<close> show "quits h (E1 @ E2) = 1" "releases h (E1 @ E2) = 1"
      if "\<forall>t. redis_quit env t = None"
      using that by blast+
  qed
qed

lemma handles_ok_api [simp]: "handles_ok env n [EAxios r]"
  by (simp add: handles_ok_def)

lemma handles_ok_Nil [simp]: "handles_ok env n []"
  by (simp add: handles_ok_def)

text \<open>One step of \<open>makeCustomRequest\<close>: the ways through its body.\<close>

lemma makeCustomRequest_cases:
  obtains
    (token_failed) e w1 where "getAccessToken P env w = (Inl e, w1)"
      and "makeCustomRequest P env meth path dat retry w = (Inl e, w1)"
  | (sign_failed) token w1 e where "getAccessToken P env w = (Inr token, w1)"
      and "\<not> credentials env"
      and "makeCustomRequest P env meth path dat retry w = (Inl e, w1)"
  | (no_reply) token w1 req m where "getAccessToken P env w = (Inr token, w1)"
      and "axios_reply env (w1 @ [EAxios req]) = Inl m"
      and "makeCustomRequest P env meth path dat retry w = (Inl (AxiosError m None), w1 @ [EAxios req])"
  | (rejected) token w1 req r m where "getAccessToken P env w = (Inr token, w1)"
      and "axios_reply env (w1 @ [EAxios req]) = Inr r" and "\<not> (200 \<le> status r \<and> status r < 500)"
      and "makeCustomRequest P env meth path dat retry w =
             (Inl (AxiosError m (Some r)), w1 @ [EAxios req])"
  | (answered) token w1 req r where "getAccessToken P env w = (Inr token, w1)"
      and "axios_reply env (w1 @ [EAxios req]) = Inr r" and "200 \<le> status r" and "status r < 500"
      and "\<not> (js_opt (data r) ''code'' = JNum (Fin 1010) \<and> retry)"
      and "makeCustomRequest P env meth path dat retry w =
             (if status r \<ge> 400 then Inr (data r)
              else (case js_get (data r) ''success'' of Inl e \<Rightarrow> Inl e | Inr s \<Rightarrow> Inr (data r)),
              w1 @ [EAxios req])"
  | (again) token w1 req r where "getAccessToken P env w = (Inr token, w1)"
      and "axios_reply env (w1 @ [EAxios req]) = Inr r" and "200 \<le> status r" and "status r < 500"
      and "js_opt (data r) ''code'' = JNum (Fin 1010)" and "retry"
      and "makeCustomRequest P env meth path dat retry w =
             makeCustomRequest P env meth path dat False (delete_cached_token env (w1 @ [EAxios req]))"
proof (cases "getAccessToken P env w")
  case (Pair res w1)
  show ?thesis
  proof (cases res)
    case (Inl e)
    with Pair show ?thesis
      by (intro token_failed [of e w1]) (simp_all add: makeCustomRequest.simps [of P env meth path dat retry w])
  next
    case (Inr token)
    define body where "body = (if truthy dat then JSON_stringify P dat else [])"
    show ?thesis
    proof (cases "generateSign P env w1 (toUpperCase meth) path (Some body) token")
      case e: (Inl e)
      then have "\<not> credentials env"
        using generateSign_credentials(1) [of P env w1 "toUpperCase meth" path "Some body" token]
        by auto
      with e Pair Inr show ?thesis
        by (intro sign_failed [of token w1 e])
           (simp_all add: makeCustomRequest.simps [of P env meth path dat retry w] body_def)
    next
      case sg: (Inr sg)
      define req where "req = requestConfig meth path dat token sg"
      show ?thesis
      proof (cases "axios_reply env (w1 @ [EAxios req])")
        case m: (Inl m)
        with Pair Inr sg show ?thesis
          by (intro no_reply [of token w1 req m])
             (simp_all add: makeCustomRequest.simps [of P env meth path dat retry w] body_def
                req_def axios_def)
      next
        case r: (Inr r)
        show ?thesis
        proof (cases "200 \<le> status r \<and> status r < 500")
          case False
          with Pair Inr sg r show ?thesis
            by (intro rejected [of token w1 req r])
               (auto simp add: makeCustomRequest.simps [of P env meth path dat retry w] body_def
                  req_def axios_def)
        next
          case True
          show ?thesis
          proof (cases "js_opt (data r) ''code'' = JNum (Fin 1010) \<and> retry")
            case rep: True
            with Pair Inr sg r True show ?thesis
              by (intro again [of token w1 req r])
                 (simp_all add: makeCustomRequest.simps [of P env meth path dat retry w]
                    makeCustomRequest.simps [of P env meth path dat True w] body_def
                    req_def axios_def del: js_opt.simps)
          next
            case final: False
            with Pair Inr sg r True show ?thesis
              by (intro answered [of token w1 req r])
                 (auto simp add: makeCustomRequest.simps [of P env meth path dat retry w] body_def
                    req_def axios_def simp del: js_opt.simps split: sum.splits)
          qed
        qed
      qed
    qed
  qed
qed

lemma makeCustomRequest_once:
  "\<exists>E. snd (makeCustomRequest P env meth path dat False w) = w @ E \<and> api_calls E \<le> 1
        \<and> auth_calls E \<le> 1 \<and> handles_ok env (fresh w) E"
proof -
  from getAccessToken_summary [of P env w] obtain E0 where
    E0: "snd (getAccessToken P env w) = w @ E0" "api_calls E0 = 0" "auth_calls E0 \<le> 1"
      "handles_ok env (fresh w) E0"
    by blast
  have step: "handles_ok env (fresh w) (E0 @ [EAxios req])" for req
    using handles_ok_append [OF E0(4), of "[EAxios req]"] by simp
  show ?thesis
  proof (cases rule: makeCustomRequest_cases [of P env w meth path dat False])
    case (token_failed e w1)
    with E0 show ?thesis by (intro exI [of _ E0]) simp
  next
    case (sign_failed token w1 e)
    with E0 show ?thesis by (intro exI [of _ E0]) simp
  next
    case (no_reply token w1 req m)
    with E0 step [of req] show ?thesis by (intro exI [of _ "E0 @ [EAxios req]"]) simp
  next
    case (rejected token w1 req r m)
    with E0 step [of req] show ?thesis by (intro exI [of _ "E0 @ [EAxios req]"]) simp
  next
    case (answered token w1 req r)
    with E0 step [of req] show ?thesis by (intro exI [of _ "E0 @ [EAxios req]"]) simp
  next
    case (again token w1 req r)
    then show ?thesis by simp
  qed
qed

lemma makeCustomRequest_summary:
  "\<exists>E. snd (makeCustomRequest P env meth path dat retry w) = w @ E
        \<and> api_calls E \<le> (if retry then 2 else 1)
        \<and> auth_calls E \<le> (if retry then 2 else 1) \<and> handles_ok env (fresh w) E"
proof -
  from getAccessToken_summary [of P env w] obtain E0 where
    E0: "snd (getAccessToken P env w) = w @ E0" "api_calls E0 = 0" "auth_calls E0 \<le> 1"
      "handles_ok env (fresh w) E0"
    by blast
  have step: "handles_ok env (fresh w) (E0 @ [EAxios req])" for req
    using handles_ok_append [OF E0(4), of "[EAxios req]"] by simp
  show ?thesis
  proof (cases rule: makeCustomRequest_cases [of P env w meth path dat retry])
    case (token_failed e w1)
    with E0 show ?thesis by (intro exI [of _ E0]) simp
  next
    case (sign_failed token w1 e)
    with E0 show ?thesis by (intro exI [of _ E0]) simp
  next
    case (no_reply token w1 req m)
    with E0 step [of req] show ?thesis by (intro exI [of _ "E0 @ [EAxios req]"]) simp
  next
    case (rejected token w1 req r m)
    with E0 step [of req] show ?thesis by (intro exI [of _ "E0 @ [EAxios req]"]) simp
  next
    case (answered token w1 req r)
    with E0 step [of req] show ?thesis by (intro exI [of _ "E0 @ [EAxios req]"]) simp
  next
    case (again token w1 req r)
    let ?w2 = "w @ E0 @ [EAxios req]"
    from delete_cached_token_summary [of env ?w2] obtain E1 where
      E1: "delete_cached_token env ?w2 = ?w2 @ E1" "api_calls E1 = 0" "auth_calls E1 = 0"
        "handles_ok env (fresh ?w2) E1"
      by blast
    let ?w3 = "w @ E0 @ [EAxios req] @ E1"
    from makeCustomRequest_once [of P env meth path dat ?w3] obtain E2 where
      E2: "snd (makeCustomRequest P env meth path dat False ?w3) = ?w3 @ E2" "api_calls E2 \<le> 1"
        "auth_calls E2 \<le> 1" "handles_ok env (fresh ?w3) E2"
      by blast
    have h1: "handles_ok env (fresh w) ((E0 @ [EAxios req]) @ E1)"
      using handles_ok_append [OF step [of req], of E1] E1(4) by simp
    have h2: "handles_ok env (fresh w) (((E0 @ [EAxios req]) @ E1) @ E2)"
      using handles_ok_append [OF h1, of E2] E2(4) by simp
    have "snd (makeCustomRequest P env meth path dat retry w) = w @ (E0 @ [EAxios req] @ E1 @ E2)"
      using again(1,7) E0(1) E1(1) E2(1) by simp
    with again(6) E0 E1 E2 h2 show ?thesis
      by (intro exI [of _ "E0 @ [EAxios req] @ E1 @ E2"]) simp
  qed
qed

lemma getAccessToken_succeeds:
  assumes "vendor_issues_tokens env" and "credentials env"
  shows "\<exists>token. fst (getAccessToken P env w) = Inr token"
proof -
  have ok: "\<exists>r. axios_reply env (t @ [EAxiosGet req]) = Inr r \<and> 200 \<le> status r \<and> status r < 300
                \<and> valid_token_envelope (data r)" for t req
    using assms(1) by (simp add: vendor_issues_tokens_def)
  from getAccessToken_result [of env w P] assms(2) show ?thesis
  proof (elim disjE conjE exE, goal_cases)
    case (3 c w1 req m)
    with ok [of w1 req] show ?case by simp
  next
    case (4 c w1 req r m)
    with ok [of w1 req] show ?case by simp
  next
    case (5 c w1 req r m)
    with ok [of w1 req] show ?case by simp
  qed simp_all
qed

text \<open>With a vendor that always answers the invalid-token code, a call that may not retry
  returns the envelope of its one request.\<close>

lemma sentinel_once_trace:
  assumes "vendor_issues_tokens env" and "credentials env" and "vendor_rejects_token env"
  shows "\<exists>E0 req r. makeCustomRequest P env meth path dat False w = (Inr (data r), w @ E0 @ [EAxios req])
            \<and> api_calls E0 = 0 \<and> deletes E0 = 0 \<and> axios_reply env (w @ E0 @ [EAxios req]) = Inr r"
proof -
  from getAccessToken_no_delete [of P env w] obtain E0 where
    E0: "snd (getAccessToken P env w) = w @ E0" "api_calls E0 = 0" "deletes E0 = 0" by blast
  have rej: "\<exists>r. axios_reply env (t @ [EAxios req]) = Inr r \<and> 200 \<le> status r \<and> status r < 500
             \<and> js_opt (data r) ''code'' = JNum (Fin 1010)" for t req
    using assms(3) by (simp add: vendor_rejects_token_def)
  show ?thesis
  proof (cases rule: makeCustomRequest_cases [of P env w meth path dat False])
    case (token_failed e w1)
    with getAccessToken_succeeds [OF assms(1,2), of P w] show ?thesis by simp
  next
    case (sign_failed token w1 e)
    with assms(2) show ?thesis by simp
  next
    case (no_reply token w1 req m)
    with rej [of w1 req] show ?thesis by simp
  next
    case (rejected token w1 req r m)
    with rej [of w1 req] show ?thesis by auto
  next
    case (answered token w1 req r)
    from rej [of w1 req] answered(2) have code: "js_opt (data r) ''code'' = JNum (Fin 1010)"
      by simp
    then obtain s where "js_get (data r) ''success'' = Inr s"
      by (cases "data r") auto
    with answered E0 show ?thesis
      by (intro exI [of _ E0] exI [of _ req] exI [of _ r]) (simp del: js_opt.simps)
  next
    case (again token w1 req r)
    then show ?thesis by simp
  qed
qed

section \<open>The single retry of makeCustomRequest\<close>

text \<open>
  Claim C1. For every method, path and data, \<open>makeCustomRequest\<close> sends at most two
  resource requests when the retry flag is true and at most one when it is false. When
  the first response carries the code 1010 and the flag is true, the best-effort delete
  of the cached token is made right after that response (a connection attempt and, when
  it succeeds, the delete of \<open>tuya_token\<close> and the \<^verbatim>\<open>quit\<close>, their failures
  swallowed), and the call then is the call with the flag false, started from there.
  With a vendor that answers every resource request with the code 1010 (and keeps
  issuing tokens), the events of the call with the flag true are: the token acquisition,
  the first request, the best-effort delete, the second token acquisition, the second
  request. Exactly two resource requests are sent; the cached token is deleted once when
  the cache can be reached and not at all otherwise, and nowhere else; nothing follows
  the second request, and the envelope of the answer to it is returned as it is.
\<close>

theorem makeCustomRequest_retries_once:
  fixes P env meth path dat w
  defines "w' \<equiv> snd (makeCustomRequest P env meth path dat True w)"
  shows "api_calls (emitted w (snd (makeCustomRequest P env meth path dat retry w)))
           \<le> (if retry then 2 else 1)
       \<and> (getAccessToken P env w = (Inr token, w1) \<and> credentials env
            \<and> (\<forall>req. axios_reply env (w1 @ [EAxios req]) = Inr r)
            \<and> 200 \<le> status r \<and> status r < 500 \<and> js_opt (data r) ''code'' = JNum (Fin 1010)
          \<longrightarrow> (\<exists>req. makeCustomRequest P env meth path dat True w =
                  makeCustomRequest P env meth path dat False
                    (w1 @ [EAxios req] @ best_effort_delete env (w1 @ [EAxios req]))))
       \<and> (credentials env \<and> vendor_issues_tokens env \<and> vendor_rejects_token env
          \<longrightarrow> (\<exists>E0 req1 E2 req2.
                 emitted w w' = E0 @ [EAxios req1] @ best_effort_delete env (w @ E0 @ [EAxios req1])
                                  @ E2 @ [EAxios req2]
                 \<and> w @ E0 = snd (getAccessToken P env w)
                 \<and> api_calls E0 = 0 \<and> deletes E0 = 0 \<and> api_calls E2 = 0 \<and> deletes E2 = 0
                 \<and> deletes (emitted w w') =
                     (if redis_configured env \<and> redis_connect env (w @ E0 @ [EAxios req1]) = None
                      then 1 else 0))
            \<and> api_calls (emitted w w') = 2 \<and> w' \<noteq> [] \<and> is_api_call (last w')
            \<and> (\<exists>r. axios_reply env w' = Inr r
                   \<and> fst (makeCustomRequest P env meth path dat True w) = Inr (data r)))"
proof -
  have A: "api_calls (emitted w (snd (makeCustomRequest P env meth path dat retry w)))
           \<le> (if retry then 2 else 1)"
    using makeCustomRequest_summary [of P env meth path dat retry w] by auto
  have B: "\<exists>req. makeCustomRequest P env meth path dat True w =
                  makeCustomRequest P env meth path dat False
                    (w1 @ [EAxios req] @ best_effort_delete env (w1 @ [EAxios req]))"
    if g: "getAccessToken P env w = (Inr token, w1)" and cred: "credentials env"
      and reply: "\<forall>req. axios_reply env (w1 @ [EAxios req]) = Inr r"
      and st: "200 \<le> status r" "status r < 500" and code: "js_opt (data r) ''code'' = JNum (Fin 1010)"
  proof (cases rule: makeCustomRequest_cases [of P env w meth path dat True])
    case (again token' w1' req r')
    with g show ?thesis by (auto simp add: delete_cached_token_spec)
  qed (use g cred reply st code in auto)
  have C: "(\<exists>E0 req1 E2 req2.
                 emitted w w' = E0 @ [EAxios req1] @ best_effort_delete env (w @ E0 @ [EAxios req1])
                                  @ E2 @ [EAxios req2]
                 \<and> w @ E0 = snd (getAccessToken P env w)
                 \<and> api_calls E0 = 0 \<and> deletes E0 = 0 \<and> api_calls E2 = 0 \<and> deletes E2 = 0
                 \<and> deletes (emitted w w') =
                     (if redis_configured env \<and> redis_connect env (w @ E0 @ [EAxios req1]) = None
                      then 1 else 0))
            \<and> api_calls (emitted w w') = 2 \<and> w' \<noteq> [] \<and> is_api_call (last w')
            \<and> (\<exists>r. axios_reply env w' = Inr r
                   \<and> fst (makeCustomRequest P env meth path dat True w) = Inr (data r))"
    if cred: "credentials env" and tok: "vendor_issues_tokens env" and rej: "vendor_rejects_token env"
  proof -
    from getAccessToken_no_delete [of P env w] obtain E0 where
      E0: "snd (getAccessToken P env w) = w @ E0" "api_calls E0 = 0" "deletes E0 = 0" by blast
    have rj: "\<exists>r. axios_reply env (t @ [EAxios req]) = Inr r \<and> 200 \<le> status r \<and> status r < 500
             \<and> js_opt (data r) ''code'' = JNum (Fin 1010)" for t req
      using rej by (simp add: vendor_rejects_token_def)
    show ?thesis
    proof (cases rule: makeCustomRequest_cases [of P env w meth path dat True])
      case (token_failed e w1)
      with getAccessToken_succeeds [OF tok cred, of P w] show ?thesis by simp
    next
      case (sign_failed token w1 e)
      with cred show ?thesis by simp
    next
      case (no_reply token w1 req m)
      with rj [of w1 req] show ?thesis by simp
    next
      case (rejected token w1 req r m)
      with rj [of w1 req] show ?thesis by auto
    next
      case (answered token w1 req r)
      with rj [of w1 req] show ?thesis by simp
    next
      case (again token w1 req r)
      let ?w2 = "w @ E0 @ [EAxios req]"
      let ?D = "best_effort_delete env ?w2"
      let ?w3 = "w @ E0 @ [EAxios req] @ ?D"
      from sentinel_once_trace [OF tok cred rej, of P meth path dat ?w3] obtain E2 req2 r2 where
        E2: "makeCustomRequest P env meth path dat False ?w3 = (Inr (data r2), ?w3 @ E2 @ [EAxios req2])"
          "api_calls E2 = 0" "deletes E2 = 0" "axios_reply env (?w3 @ E2 @ [EAxios req2]) = Inr r2"
        by blast
      have m: "makeCustomRequest P env meth path dat True w =
                 (Inr (data r2), w @ E0 @ [EAxios req] @ ?D @ E2 @ [EAxios req2])"
        using again(1,7) E0(1) E2(1) by (simp add: delete_cached_token_spec)
      then have w': "w' = w @ E0 @ [EAxios req] @ ?D @ E2 @ [EAxios req2]"
        by (simp add: w'_def)
      have em: "emitted w w' = E0 @ [EAxios req] @ ?D @ E2 @ [EAxios req2]"
        unfolding w' by simp
      have l: "last w' = EAxios req2" "w' \<noteq> []"
        unfolding w' by simp_all
      have n: "api_calls (emitted w w') = 2"
        unfolding em using E0(2) E2(2) by (simp add: deletes_best_effort)
      have d: "deletes (emitted w w') =
                 (if redis_configured env \<and> redis_connect env ?w2 = None then 1 else 0)"
        unfolding em using E0(3) E2(3) by (simp add: deletes_best_effort)
      have a: "axios_reply env w' = Inr r2"
        unfolding w' using E2(4) by simp
      have dec: "\<exists>E0 req1 E2 req2.
                 emitted w w' = E0 @ [EAxios req1] @ best_effort_delete env (w @ E0 @ [EAxios req1])
                                  @ E2 @ [EAxios req2]
                 \<and> w @ E0 = snd (getAccessToken P env w)
                 \<and> api_calls E0 = 0 \<and> deletes E0 = 0 \<and> api_calls E2 = 0 \<and> deletes E2 = 0
                 \<and> deletes (emitted w w') =
                     (if redis_configured env \<and> redis_connect env (w @ E0 @ [EAxios req1]) = None
                      then 1 else 0)"
        using em E0 E2(2,3) d
        by (intro exI [of _ E0] exI [of _ req] exI [of _ E2] exI [of _ req2]) simp
      from dec n l a m show ?thesis by simp
    qed
  qed
  from A B C show ?thesis by blast
qed

theorem makeCustomRequest_retries_once_witness:
  "fst (makeCustomRequest test_platform env_sentinel ''GET'' ''/v1.0/devices/dev1'' JNull True [])
     = Inr sentinel_envelope
   \<and> api_calls (snd (makeCustomRequest test_platform env_sentinel ''GET'' ''/v1.0/devices/dev1''
        JNull True [])) = 2
   \<and> deletes (snd (makeCustomRequest test_platform env_sentinel ''GET'' ''/v1.0/devices/dev1''
        JNull True [])) = 1"
proof -
  let ?w' = "snd (makeCustomRequest test_platform env_sentinel ''GET'' ''/v1.0/devices/dev1'' JNull True [])"
  have c: "credentials env_sentinel"
    by (simp add: credentials_def env_sentinel_def test_env_def)
  have t: "vendor_issues_tokens env_sentinel"
    by (simp add: vendor_issues_tokens_def env_sentinel_def test_env_def vendor_def
        valid_token_envelope_def token_envelope_def)
  have na: "is_api_call e \<Longrightarrow> \<not> is_auth_call e" for e
    by (cases e) simp_all
  have r: "vendor_rejects_token env_sentinel"
    using na by (simp add: vendor_rejects_token_def env_sentinel_def test_env_def vendor_def
        sentinel_envelope_def)
  have rc: "redis_configured env_sentinel" "redis_connect env_sentinel u = None" for u
    by (simp_all add: redis_configured_def env_sentinel_def test_env_def)
  note T = makeCustomRequest_retries_once [where P = test_platform and env = env_sentinel and w = "[]"
      and meth = "''GET''" and path = "''/v1.0/devices/dev1''" and dat = JNull]
  from T c t r have 2: "api_calls (emitted [] ?w') = 2" and l: "?w' \<noteq> []" "is_api_call (last ?w')"
    by blast+
  from T c t r obtain E0 req1 where
    "deletes (emitted [] ?w') =
       (if redis_configured env_sentinel \<and> redis_connect env_sentinel ([] @ E0 @ [EAxios req1]) = None
        then 1 else 0)"
    by blast
  with rc have d: "deletes ?w' = 1" by simp
  from T c t r obtain r where "axios_reply env_sentinel ?w' = Inr r"
    and f: "fst (makeCustomRequest test_platform env_sentinel ''GET'' ''/v1.0/devices/dev1'' JNull True [])
               = Inr (data r)"
    by blast
  then have "data r = sentinel_envelope"
    using l na [of "last ?w'"] by (auto simp add: env_sentinel_def test_env_def vendor_def)
  with f 2 d show ?thesis by simp
qed

section \<open>Release of the cache connections\<close>

lemma handles_ok_quit:
  assumes "handles_ok env n E"
  shows "quit_attempted E" and "(\<forall>t. redis_quit env t = None) \<Longrightarrow> quit_once E"
  using assms by (auto simp add: handles_ok_def quit_attempted_def quit_once_def)

text \<open>
  Claim C6. Every connection acquired is to be quit exactly once on every exit path. The
  code breaks this on the cache hit whose \<^verbatim>\<open>quit\<close> (line 43) rejects: this
  \<^verbatim>\<open>quit\<close>, alone among those of the module, has no \<^verbatim>\<open>try\<close> of its own, so the rejection
  reaches the \<^verbatim>\<open>catch\<close> on line 47, which calls \<^verbatim>\<open>quit\<close> on the same client a
  second time (line 50). With a server on which every \<^verbatim>\<open>quit\<close> rejects, the first
  connection is quit twice and never released; with one on which only the first
  \<^verbatim>\<open>quit\<close> rejects, it is quit twice, the second call releasing it.
\<close>

theorem quit_twice_after_cache_hit:
  "acquired (snd (getAccessToken test_platform env_cached_quit_fails [])) = [0, 1]
   \<and> quits 0 (snd (getAccessToken test_platform env_cached_quit_fails [])) = 2
   \<and> releases 0 (snd (getAccessToken test_platform env_cached_quit_fails [])) = 0
   \<and> quits 0 (snd (getAccessToken test_platform env_cached_first_quit_fails [])) = 2
   \<and> releases 0 (snd (getAccessToken test_platform env_cached_first_quit_fails [])) = 1"
  by (simp add: env_cached_quit_fails_def env_cached_first_quit_fails_def env_cached_def
      eval_defs)

text \<open>
  Where no \<^verbatim>\<open>quit\<close> rejects, the code does what the claim says, in
  \<open>getAccessToken\<close>, in the delete of the cached token and in \<open>makeCustomRequest\<close> as
  a whole: every connection opened is quit exactly once and released. In general
  \<^verbatim>\<open>quit\<close> is called on every connection opened, at least once and at most twice,
  and resolves at most once.
\<close>

lemma connections_quit:
  fixes P env meth path dat retry w
  defines "E1 \<equiv> emitted w (snd (getAccessToken P env w))"
    and "E2 \<equiv> emitted w (delete_cached_token env w)"
    and "E3 \<equiv> emitted w (snd (makeCustomRequest P env meth path dat retry w))"
  shows "quit_attempted E1 \<and> quit_attempted E2 \<and> quit_attempted E3
       \<and> ((\<forall>t. redis_quit env t = None) \<longrightarrow> quit_once E1 \<and> quit_once E2 \<and> quit_once E3)"
proof -
  have 1: "handles_ok env (fresh w) E1"
    using getAccessToken_summary [of P env w] by (auto simp add: E1_def)
  have 2: "handles_ok env (fresh w) E2"
    using delete_cached_token_summary [of env w] by (auto simp add: E2_def)
  have 3: "handles_ok env (fresh w) E3"
    using makeCustomRequest_summary [of P env meth path dat retry w] by (auto simp add: E3_def)
  from handles_ok_quit [OF 1] handles_ok_quit [OF 2] handles_ok_quit [OF 3]
  show ?thesis by blast
qed

lemma connections_quit_test:
  "quit_once (emitted [] (snd (getAccessToken test_platform test_env [])))
   \<and> acquired (snd (getAccessToken test_platform test_env [])) = [0]"
proof -
  have q: "\<forall>t. redis_quit test_env t = None"
    by (simp add: test_env_def)
  have a: "acquired (snd (getAccessToken test_platform test_env [])) = [0]"
    by (simp add: eval_defs)
  from connections_quit [where P = test_platform and env = test_env and w = "[]"
      and meth = "''GET''" and path = "''/''" and dat = JNull and retry = True] q a
  show ?thesis by simp
qed

end
